theory Spec2Isabelle
  imports Complex_Main
begin

section \<open>JavaScript values\<close>

text \<open>
  The services handle replies typed \<open>any\<close>: a parsed JSON document, whose properties
  may be absent. A value is one of JavaScript's: \<open>undefined\<close>, \<open>null\<close>, a boolean, a
  number (a finite one is a rational here; \<open>NaN\<close> is its own constructor), a string, an array,
  or a plain object (its own properties, in order). A string is a list of 8-bit code units.
\<close>

datatype jsval =
    JUndefined
  | JNull
  | JBool bool
  | JNum rat
  | JNaN
  | JStr string
  | JArr "jsval list"
  | JObj "(string \<times> jsval) list"

text \<open>What a \<open>throw\<close> carries. Every \<open>catch\<close> of the services ignores the kind.\<close>

datatype error =
    TypeError
  | SyntaxError
  | NetworkError
  | Error string

type_synonym 'a result = "error + 'a"

text \<open>\<open>!v\<close> is true on the falsy values.\<close>

fun truthy :: "jsval \<Rightarrow> bool" where
  "truthy JUndefined = False"
| "truthy JNull = False"
| "truthy (JBool b) = b"
| "truthy (JNum n) = (n \<noteq> 0)"
| "truthy JNaN = False"
| "truthy (JStr s) = (s \<noteq> [])"
| "truthy (JArr xs) = True"
| "truthy (JObj kvs) = True"

text \<open>\<open>a || b\<close>\<close>

definition or_else :: "jsval \<Rightarrow> jsval \<Rightarrow> jsval" where
  "or_else a b = (if truthy a then a else b)"

fun isArray :: "jsval \<Rightarrow> bool" where
  "isArray (JArr xs) = True"
| "isArray v = False"

text \<open>The elements of an array.\<close>

fun elements :: "jsval \<Rightarrow> jsval list" where
  "elements (JArr xs) = xs"
| "elements v = []"

fun nullish :: "jsval \<Rightarrow> bool" where
  "nullish JUndefined = True"
| "nullish JNull = True"
| "nullish v = False"

text \<open>
  \<open>v.k\<close> for one of the property names the services read (\<open>title\<close>, \<open>author\<close>,
  \<open>rating\<close>, \<open>reply\<close>, \<open>suggestions\<close>, ...), on a value that is neither \<open>null\<close> nor
  \<open>undefined\<close>: an object yields its own property, anything else has none of these names.
  On \<open>null\<close> and \<open>undefined\<close> the access throws; the callers test \<open>nullish\<close> first.
\<close>

fun get_prop :: "jsval \<Rightarrow> string \<Rightarrow> jsval" where
  "get_prop (JObj kvs) k = (case map_of kvs k of None \<Rightarrow> JUndefined | Some v \<Rightarrow> v)"
| "get_prop v k = JUndefined"

text \<open>Writing a property in an object literal: an existing key keeps its place.\<close>

fun set_prop :: "string \<Rightarrow> jsval \<Rightarrow> (string \<times> jsval) list \<Rightarrow> (string \<times> jsval) list" where
  "set_prop k v [] = [(k, v)]"
| "set_prop k v ((k', v') # kvs) =
     (if k = k' then (k, v) # kvs else (k', v') # set_prop k v kvs)"

definition digit :: "nat \<Rightarrow> char" where
  "digit d = ''0123456789'' ! d"

text \<open>
  A non-negative integer inside a template literal: an index of an array, or \<open>Date.now()\<close>,
  a number of milliseconds; both are far below \<open>10^21\<close>, from where a number prints with an
  exponent.
\<close>

fun string_of_nat :: "nat \<Rightarrow> string" where
  "string_of_nat n =
     (if n < 10 then [digit n] else string_of_nat (n div 10) @ [digit (n mod 10)])"

declare string_of_nat.simps [simp del]

fun indexed :: "nat \<Rightarrow> 'a list \<Rightarrow> (nat \<times> 'a) list" where
  "indexed i [] = []"
| "indexed i (x # xs) = (i, x) # indexed (Suc i) xs"

text \<open>
  The own enumerable properties that \<open>{...b}\<close> copies: those of an object, the indices of an
  array or of a string, none of any other value.
\<close>

fun spread :: "jsval \<Rightarrow> (string \<times> jsval) list" where
  "spread (JObj kvs) = kvs"
| "spread (JArr xs) = map (\<lambda>(i, x). (string_of_nat i, x)) (indexed 0 xs)"
| "spread (JStr s) = map (\<lambda>(i, c). (string_of_nat i, JStr [c])) (indexed 0 s)"
| "spread v = []"

text \<open>\<open>xs.map(f)\<close> with a callback that may throw: the first throw ends the loop.\<close>

fun map_result :: "(nat \<Rightarrow> 'a \<Rightarrow> 'b result) \<Rightarrow> nat \<Rightarrow> 'a list \<Rightarrow> 'b list result" where
  "map_result f i [] = Inr []"
| "map_result f i (x # xs) =
     (case f i x of
        Inl e \<Rightarrow> Inl e
      | Inr y \<Rightarrow> (case map_result f (Suc i) xs of Inl e \<Rightarrow> Inl e | Inr ys \<Rightarrow> Inr (y # ys)))"

section \<open>The runtime and the outside world\<close>

text \<open>
  What the services use and do not define is a parameter: the builtins \<open>JSON.parse\<close> (\<open>Inl\<close>
  when it throws), \<open>JSON.stringify\<close>, the number conversion of \<open>Math.max\<close> on a string, array
  or object, the \<open>toString\<close> method of a value other than a string, the string that a
  template literal makes of a value typed \<open>number\<close> (\<open>${chapter}\<close>), and the clock; the four
  environment variables (\<open>import.meta.env\<close> and \<open>process.env\<close> are objects, a variable is
  set or not); and the three network endpoints, each a function of the request.
\<close>

datatype chat_message = ChatMessage (role: string) (content: string)

datatype groq_request =
  GroqRequest (messages: "chat_message list") (jsonMode: bool) (maxTokens: nat)

text \<open>
  The body of a chat completion as \<open>callGroq\<close> reads it, \<open>data.choices[0]?.message?.content\<close>:
  \<open>choices\<close> is \<open>None\<close> for a body on which \<open>data.choices[0]\<close> throws.
\<close>

datatype groq_message = GroqMessage (message_content: "string option")
datatype groq_choice = GroqChoice (choice_message: "groq_message option")
datatype groq_data = GroqData (choices: "groq_choice list option")

text \<open>
  The body of the inference endpoint, read as \<open>result[0]?.generated_text\<close>: \<open>None\<close> for a
  body on which \<open>result[0]\<close> throws; a body with no element \<open>0\<close> is the empty list.
\<close>

datatype hf_item = HFItem (generated_text: "string option")
type_synonym hf_data = "hf_item list option"

text \<open>\<open>fetch\<close> rejects, or resolves to a response: its \<open>ok\<close> flag and what \<open>json()\<close> gives.\<close>

datatype 'b fetched = FetchFailed | Response bool "'b result"

datatype response_schema = BookList | ConciergeReply | RecommendationList | ReviewList

datatype gemini_request =
  GeminiRequest (contents: string) (responseSchema: "response_schema option")

datatype gemini_response = GeminiResponse (response_text: "string option")

record world =
  JSON_parse :: "string \<Rightarrow> jsval result"
  JSON_stringify :: "jsval \<Rightarrow> string"
  ToNumber_other :: "jsval \<Rightarrow> jsval result"
  toString_other :: "jsval \<Rightarrow> jsval result"
  Date_now :: "nat \<Rightarrow> nat"
  ToString_number :: "jsval \<Rightarrow> string"
  VITE_GROQ_API_KEY :: "string option"
  VITE_GEMINI_API_KEY :: "string option"
  API_KEY :: "string option"
  VITE_HF_TOKEN :: "string option"
  groq_fetch :: "groq_request \<Rightarrow> groq_data fetched"
  hf_fetch :: "string \<Rightarrow> hf_data fetched"
  generateContent :: "gemini_request \<Rightarrow> gemini_response result"

text \<open>An environment variable is falsy when it is unset or empty.\<close>

fun present :: "string option \<Rightarrow> bool" where
  "present None = False"
| "present (Some s) = (s \<noteq> [])"

text \<open>
  What a call does besides returning: the requests it sends and the operations of the static
  fallback service it enters, in order.
\<close>

datatype capability =
    SearchBooks | ConsultConcierge | GetOnboardingRecommendations | GenerateReviews
  | ChatAboutBook | TranslateText | ExplainContext | GenerateBookContent
  | GetBookSummary | GetBookRecap

datatype event = GroqFetch | HFFetch | GeminiCall | Fallback capability

type_synonym 'a io = "event list \<times> 'a result"

section \<open>Regular expressions of the services\<close>

definition nl :: string where "nl = [CHR 0x0A]"
definition apos :: string where "apos = [CHR 0x27]"
definition dq :: string where "dq = [CHR 0x22]"

text \<open>\<open>\s\<close>, and what \<open>trim\<close> removes, among the 8-bit code units.\<close>

definition is_space :: "char \<Rightarrow> bool" where
  "is_space c = (c \<in> set [CHR 0x09, CHR 0x0A, CHR 0x0B, CHR 0x0C, CHR 0x0D, CHR 0x20, CHR 0xA0])"

definition trim :: "string \<Rightarrow> string" where
  "trim s = rev (dropWhile is_space (rev (dropWhile is_space s)))"

fun starts_with :: "string \<Rightarrow> string \<Rightarrow> bool" where
  "starts_with [] s = True"
| "starts_with (p # ps) [] = False"
| "starts_with (p # ps) (c # cs) = (p = c \<and> starts_with ps cs)"

text \<open>The text before and after the first occurrence of a pattern.\<close>

fun split_first :: "string \<Rightarrow> string \<Rightarrow> (string \<times> string) option" where
  "split_first p [] = (if p = [] then Some ([], []) else None)"
| "split_first p (c # cs) =
     (if starts_with p (c # cs) then Some ([], drop (length p) (c # cs))
      else (case split_first p cs of None \<Rightarrow> None | Some (b, a) \<Rightarrow> Some (c # b, a)))"

text \<open>The longest prefix that ends with the character, when it occurs.\<close>

definition upto_last :: "char \<Rightarrow> string \<Rightarrow> string" where
  "upto_last d s = rev (dropWhile (\<lambda>c. c \<noteq> d) (rev s))"

text \<open>
  Group 1 of the first match of \<open>/```json?\s*([\s\S]*?)```/\<close>: after the leftmost
  \<open>```jso\<close>, an optional \<open>n\<close> and the white space, the text up to the next fence.
\<close>

definition fence_match :: "string \<Rightarrow> string option" where
  "fence_match s =
     (case split_first ''```jso'' s of
        None \<Rightarrow> None
      | Some (b, r) \<Rightarrow>
          (case split_first ''```''
                  (dropWhile is_space (if starts_with ''n'' r then tl r else r)) of
             None \<Rightarrow> None
           | Some (g, a) \<Rightarrow> Some g))"

text \<open>
  The first match of \<open>/\[[\s\S]*\]|\{[\s\S]*\}/\<close>: at the leftmost position where one of
  the two alternatives matches, the first that does, up to the last closing character.
\<close>

fun json_match :: "string \<Rightarrow> string option" where
  "json_match [] = None"
| "json_match (c # cs) =
     (if c = CHR ''['' \<and> CHR '']'' \<in> set cs then Some (c # upto_last CHR '']'' cs)
      else if c = CHR ''{'' \<and> CHR ''}'' \<in> set cs then Some (c # upto_last CHR ''}'' cs)
      else json_match cs)"

text \<open>The first match of \<open>/\[.*\]/s\<close>, of \<open>/\{.*\}/s\<close>: from the first opening character.\<close>

definition span_match :: "char \<Rightarrow> char \<Rightarrow> string \<Rightarrow> string option" where
  "span_match l r s =
     (case dropWhile (\<lambda>c. c \<noteq> l) s of
        [] \<Rightarrow> None
      | c # cs \<Rightarrow> (if r \<in> set cs then Some (c # upto_last r cs) else None))"

text \<open>\<open>text.replace(/```json\n?|```/g, '')\<close>\<close>

fun strip_fences :: "string \<Rightarrow> string" where
  "strip_fences [] = []"
| "strip_fences (c # cs) =
     (if starts_with ''```json'' (c # cs) then
        (let r = drop 7 (c # cs) in strip_fences (if starts_with nl r then tl r else r))
      else if starts_with ''```'' (c # cs) then strip_fences (drop 3 (c # cs))
      else c # strip_fences cs)"

section \<open>Asynchronous calls: events and a result\<close>

definition throw :: "error \<Rightarrow> 'a io" where
  "throw e = ([], Inl e)"

definition resolve :: "'a \<Rightarrow> 'a io" where
  "resolve x = ([], Inr x)"

text \<open>\<open>await m\<close> followed by the rest of the body.\<close>

definition await :: "'a io \<Rightarrow> ('a \<Rightarrow> 'b io) \<Rightarrow> 'b io" where
  "await m f =
     (case m of
        (t, Inl e) \<Rightarrow> (t, Inl e)
      | (t, Inr x) \<Rightarrow> (case f x of (t', r) \<Rightarrow> (t @ t', r)))"

text \<open>
  \<open>try { m } catch { h }\<close>. The body of the \<open>try\<close> block of an operation \<open>f\<close> is
  the definition \<open>f_try\<close>. Where the body ends with \<open>return Fallback.f(...)\<close>, the
  promise it returns is not awaited inside the \<open>try\<close>; the operations of the fallback
  service never reject (\<open>fb_resolves\<close> below), so the handler is not reached from there.
\<close>

definition try_catch :: "'a io \<Rightarrow> 'a io \<Rightarrow> 'a io" where
  "try_catch m h =
     (case m of
        (t, Inl e) \<Rightarrow> (case h of (t', r) \<Rightarrow> (t @ t', r))
      | (t, Inr x) \<Rightarrow> (t, Inr x))"

text \<open>A synchronous step that may throw.\<close>

definition lift :: "'a result \<Rightarrow> 'a io" where
  "lift r = ([], r)"

text \<open>Entering an operation of the fallback service.\<close>

definition enter :: "capability \<Rightarrow> 'a io \<Rightarrow> 'a io" where
  "enter c m = (case m of (t, r) \<Rightarrow> (Fallback c # t, r))"

section \<open>The data of the application\<close>

record UserPreferences =
  name :: "string option"
  genres :: "string list"
  readingGoal :: string
  onboardingComplete :: bool
  joinDate :: nat

datatype history_entry = HistoryEntry (entry_role: string) (entry_text: string)

text \<open>
  A \<open>Book\<close> and a \<open>Review\<close> are objects built from a reply typed \<open>any\<close>, so each is a
  \<^typ>\<open>jsval\<close>; the concierge returns \<open>{ reply, suggestions }\<close>.
\<close>

datatype concierge = Concierge (reply: jsval) (suggestions: "jsval list")

section \<open>The fallback service\<close>

text \<open>\<open>callLLM\<close>: one request to the inference endpoint, when its token is set.\<close>

definition hf_inputs :: "string \<Rightarrow> string \<Rightarrow> string" where
  "hf_inputs systemPrompt userPrompt =
     ''<s>[INST] '' @ systemPrompt @ '' '' @ nl @ nl @ '' '' @ userPrompt @ '' [/INST]''"

definition callLLM :: "world \<Rightarrow> string \<Rightarrow> string \<Rightarrow> string io" where
  "callLLM w systemPrompt userPrompt =
     (if \<not> present (VITE_HF_TOKEN w) then throw (Error ''No Fallback Key'')
      else
        ([HFFetch],
         (case hf_fetch w (hf_inputs systemPrompt userPrompt) of
            FetchFailed \<Rightarrow> Inl NetworkError
          | Response ok body \<Rightarrow>
              (if \<not> ok then Inl (Error ''Fallback API Failed'')
               else
                 (case body of
                    Inl e \<Rightarrow> Inl e
                  | Inr None \<Rightarrow> Inl TypeError
                  | Inr (Some []) \<Rightarrow> Inr []
                  | Inr (Some (item # items)) \<Rightarrow>
                      Inr (case generated_text item of None \<Rightarrow> [] | Some s \<Rightarrow> s))))))"

text \<open>\<open>extractJSON\<close>: the bracketed span, else the braced one, parsed; \<open>null\<close> otherwise.\<close>

definition extractJSON :: "world \<Rightarrow> string \<Rightarrow> jsval" where
  "extractJSON w s =
     (case (case span_match CHR ''['' CHR '']'' s of
              Some m \<Rightarrow> Some m
            | None \<Rightarrow> span_match CHR ''{'' CHR ''}'' s) of
        None \<Rightarrow> JNull
      | Some m \<Rightarrow> (case JSON_parse w m of Inl e \<Rightarrow> JNull | Inr v \<Rightarrow> v))"

definition fb_search_system :: string where
  "fb_search_system = ''You are a book search engine. Return a JSON array of 5 books matching the query. properties: title, author, description, publishedYear, coverColor (hex), isbn (13 digit).''"

definition fb_search_item :: "world \<Rightarrow> nat \<Rightarrow> jsval \<Rightarrow> jsval result" where
  "fb_search_item w i b =
     (if nullish b then Inl TypeError
      else Inr (JObj
        (set_prop ''isLocal'' (JBool False)
          (set_prop ''categories'' (or_else (get_prop b ''categories'') (JArr [JStr ''General'']))
            (set_prop ''id''
               (JStr (''fallback-'' @ string_of_nat (Date_now w i) @ ''-'' @ string_of_nat i))
               (spread b))))))"

definition offline_books :: "jsval list" where
  "offline_books =
     [JObj [(''id'', JStr ''offline-1''),
            (''title'', JStr ''The Offline Library''),
            (''author'', JStr ''System Backup''),
            (''description'', JStr ''We could not reach our AI services, but here is a classic placeholder.''),
            (''publishedYear'', JStr ''2024''),
            (''categories'', JArr [JStr ''System'']),
            (''coverColor'', JStr ''#e2e8f0''),
            (''isbn'', JStr ''9780141439518''),
            (''isLocal'', JBool False)]]"

definition fb_searchBooks_try :: "world \<Rightarrow> string \<Rightarrow> jsval list io" where
  "fb_searchBooks_try w query =
     await (callLLM w fb_search_system (''Search for: '' @ query)) (\<lambda>s.
       (let json = extractJSON w s in
        if truthy json \<and> isArray json then lift (map_result (fb_search_item w) 0 (elements json))
        else throw (Error ''Parse failed'')))"

definition fb_searchBooks :: "world \<Rightarrow> string \<Rightarrow> jsval list io" where
  "fb_searchBooks w query =
     enter SearchBooks
       (try_catch (fb_searchBooks_try w query)
          (resolve offline_books))"

definition fb_concierge_system :: string where
  "fb_concierge_system = ''You are a helpful book concierge named Suitcase (Backup Mode). Reply kindly. If asked for books, provide a JSON object with '' @ apos @ ''reply'' @ apos @ '' (string) and '' @ apos @ ''suggestions'' @ apos @ '' (array of books with title, author, isbn).''"

definition fb_concierge_item :: "nat \<Rightarrow> jsval \<Rightarrow> jsval" where
  "fb_concierge_item i s =
     JObj (set_prop ''categories'' (JArr [])
            (set_prop ''isLocal'' (JBool False)
              (set_prop ''coverColor'' (JStr ''#cbd5e1'')
                (set_prop ''id'' (JStr (''fb-con-'' @ string_of_nat i)) (spread s)))))"

definition fb_concierge_offline :: concierge where
  "fb_concierge_offline =
     Concierge (JStr (''I'' @ apos @ ''m having trouble connecting to the cloud, but I'' @ apos @ ''m here listening.'')) []"

definition fb_consultConcierge_try :: "world \<Rightarrow> string \<Rightarrow> history_entry list \<Rightarrow> concierge io" where
  "fb_consultConcierge_try w userMessage history =
     await (callLLM w fb_concierge_system userMessage) (\<lambda>s.
       (let json = extractJSON w s in
        if truthy json \<and> truthy (get_prop json ''reply'') then
          resolve (Concierge (get_prop json ''reply'')
            (case get_prop json ''suggestions'' of
               JArr items \<Rightarrow> map (\<lambda>(i, x). fb_concierge_item i x) (indexed 0 items)
             | v \<Rightarrow> []))
        else resolve (Concierge (JStr s) [])))"

definition fb_consultConcierge :: "world \<Rightarrow> string \<Rightarrow> history_entry list \<Rightarrow> concierge io" where
  "fb_consultConcierge w userMessage history =
     enter ConsultConcierge
       (try_catch (fb_consultConcierge_try w userMessage history)
          (resolve fb_concierge_offline))"

definition offline_book ::
  "string \<Rightarrow> string \<Rightarrow> string \<Rightarrow> string \<Rightarrow> string \<Rightarrow> string \<Rightarrow> string \<Rightarrow> string \<Rightarrow> string \<Rightarrow> jsval" where
  "offline_book i t a d y c col isbn m =
     JObj [(''id'', JStr i), (''title'', JStr t), (''author'', JStr a), (''description'', JStr d),
           (''publishedYear'', JStr y), (''categories'', JArr [JStr c]), (''coverColor'', JStr col),
           (''isbn'', JStr isbn), (''matchReason'', JStr m), (''isLocal'', JBool False)]"

definition offline_recommendations :: "jsval list" where
  "offline_recommendations =
     [offline_book ''off-1'' ''The Great Gatsby'' ''F. Scott Fitzgerald'' ''A classic of the Jazz Age.''
        ''1925'' ''Classic'' ''#fef3c7'' ''9780743273565'' ''Timeless classic'',
      offline_book ''off-2'' ''1984'' ''George Orwell'' ''Dystopian social science fiction.''
        ''1949'' ''Sci-Fi'' ''#f3f4f6'' ''9780451524935'' ''Essential reading'',
      offline_book ''off-3'' ''Dune'' ''Frank Herbert'' ''Epic science fiction.''
        ''1965'' ''Sci-Fi'' ''#fed7aa'' ''9780441013593'' ''Masterpiece'',
      offline_book ''off-4'' ''Sapiens'' ''Yuval Noah Harari'' ''A brief history of humankind.''
        ''2011'' ''History'' ''#e0f2fe'' ''9780062316097'' ''Thought provoking'']"

definition fb_getOnboardingRecommendations :: "world \<Rightarrow> UserPreferences \<Rightarrow> jsval list io" where
  "fb_getOnboardingRecommendations w prefs =
     enter GetOnboardingRecommendations (resolve offline_recommendations)"

definition offline_review :: "string \<Rightarrow> string \<Rightarrow> rat \<Rightarrow> string \<Rightarrow> string \<Rightarrow> string \<Rightarrow> jsval" where
  "offline_review i n r t d c =
     JObj [(''id'', JStr i), (''reviewerName'', JStr n), (''rating'', JNum r), (''text'', JStr t),
           (''date'', JStr d), (''avatarColor'', JStr c)]"

definition offline_reviews :: "jsval list" where
  "offline_reviews =
     [offline_review ''rev-1'' ''Offline Reader'' 5 ''This book is a masterpiece!'' ''Today'' ''#3b82f6'',
      offline_review ''rev-2'' ''Bookworm'' 4 ''Really enjoyed the plot twists.'' ''Yesterday'' ''#ef4444'']"

definition fb_generateReviews :: "world \<Rightarrow> string \<Rightarrow> string \<Rightarrow> jsval list io" where
  "fb_generateReviews w title author = enter GenerateReviews (resolve offline_reviews)"

definition fb_chatAboutBook_try :: "world \<Rightarrow> string \<Rightarrow> string \<Rightarrow> history_entry list \<Rightarrow> string io" where
  "fb_chatAboutBook_try w bookTitle userMessage history =
     callLLM w (''You are a literary assistant discussing '' @ dq @ bookTitle @ dq @ ''. Keep answers short.'')
       userMessage"

definition fb_chatAboutBook :: "world \<Rightarrow> string \<Rightarrow> string \<Rightarrow> history_entry list \<Rightarrow> string io" where
  "fb_chatAboutBook w bookTitle userMessage history =
     enter ChatAboutBook
       (try_catch (fb_chatAboutBook_try w bookTitle userMessage history)
          (resolve (''I can'' @ apos @ ''t analyze this book right now due to connection issues.'')))"

definition fb_translateText_try :: "world \<Rightarrow> string \<Rightarrow> string io" where
  "fb_translateText_try w s =
     callLLM w ''Translate the following text to English.'' s"

definition fb_translateText :: "world \<Rightarrow> string \<Rightarrow> string io" where
  "fb_translateText w s =
     enter TranslateText
       (try_catch (fb_translateText_try w s)
          (resolve ''Translation service unavailable.''))"

definition fb_explainContext_try :: "world \<Rightarrow> string \<Rightarrow> string \<Rightarrow> string io" where
  "fb_explainContext_try w s bookTitle =
     callLLM w (''Explain the context of this text from '' @ dq @ bookTitle @ dq @ ''.'') s"

definition fb_explainContext :: "world \<Rightarrow> string \<Rightarrow> string \<Rightarrow> string io" where
  "fb_explainContext w s bookTitle =
     enter ExplainContext
       (try_catch (fb_explainContext_try w s bookTitle)
          (resolve ''Context service unavailable.''))"

text \<open>
  The chapter is typed \<open>number\<close> and defaults to 1 when the argument is absent or
  \<open>undefined\<close>. A template literal prints it as the runtime prints a number.
\<close>

definition chapter_or_default :: "jsval option \<Rightarrow> jsval" where
  "chapter_or_default c =
     (case c of None \<Rightarrow> JNum 1 | Some v \<Rightarrow> (if v = JUndefined then JNum 1 else v))"

definition fb_content_system :: "world \<Rightarrow> string \<Rightarrow> string \<Rightarrow> jsval \<Rightarrow> string" where
  "fb_content_system w title author chapter =
     ''Write the detailed narrative for Chapter '' @ ToString_number w chapter @ '' of '' @ dq @ title @ dq
       @ '' by '' @ author @ ''. '' @ nl
       @ ''        PUBLIC DOMAIN: Provide VERBATIM text. '' @ nl
       @ ''        COPYRIGHTED: Provide a detailed 2000-word adaptation. '' @ nl
       @ ''        Use HTML <p>. Do not trim content.''"

definition fb_content_offline :: "world \<Rightarrow> string \<Rightarrow> jsval \<Rightarrow> string" where
  "fb_content_offline w title chapter =
     nl @ ''            <h3>Chapter '' @ ToString_number w chapter @ ''</h3>'' @ nl
       @ ''            <p>We are currently unable to generate the full text for <strong>'' @ title
       @ ''</strong> due to high demand on our AI services.</p>'' @ nl
       @ ''            <p>Please try again later or upload a local PDF copy of this book to continue reading.</p>'' @ nl
       @ ''        ''"

definition fb_generateBookContent_try :: "world \<Rightarrow> string \<Rightarrow> string \<Rightarrow> jsval option \<Rightarrow> string io" where
  "fb_generateBookContent_try w title author chapter =
     await
       (callLLM w (fb_content_system w title author (chapter_or_default chapter))
          ''Write the full chapter content.'')
       (\<lambda>s. resolve (if s \<noteq> [] then s else ''<p>Content generation failed.</p>''))"

definition fb_generateBookContent :: "world \<Rightarrow> string \<Rightarrow> string \<Rightarrow> jsval option \<Rightarrow> string io" where
  "fb_generateBookContent w title author chapter =
     enter GenerateBookContent
       (try_catch (fb_generateBookContent_try w title author chapter)
          (resolve (fb_content_offline w title (chapter_or_default chapter))))"

definition fb_getBookSummary_try :: "world \<Rightarrow> string \<Rightarrow> string io" where
  "fb_getBookSummary_try w title =
     callLLM w (''Summarize '' @ dq @ title @ dq @ ''.'') ''Summary:''"

definition fb_getBookSummary :: "world \<Rightarrow> string \<Rightarrow> string io" where
  "fb_getBookSummary w title =
     enter GetBookSummary
       (try_catch (fb_getBookSummary_try w title)
          (resolve ''Summary unavailable offline.''))"

definition fb_getBookRecap_try :: "world \<Rightarrow> string \<Rightarrow> string io" where
  "fb_getBookRecap_try w title =
     callLLM w (''Recap the plot of '' @ dq @ title @ dq @ ''.'') ''Recap:''"

definition fb_getBookRecap :: "world \<Rightarrow> string \<Rightarrow> string io" where
  "fb_getBookRecap w title =
     enter GetBookRecap
       (try_catch (fb_getBookRecap_try w title)
          (resolve ''Recap unavailable offline.''))"

section \<open>The Groq service\<close>

text \<open>
  \<open>callGroq\<close>: one request to the chat completions endpoint, when the key is set. A reply
  that is not \<open>ok\<close> throws, with a message that no \<open>catch\<close> reads.
\<close>

definition callGroq :: "world \<Rightarrow> chat_message list \<Rightarrow> bool \<Rightarrow> nat \<Rightarrow> string io" where
  "callGroq w msgs json_mode max_tokens =
     (if \<not> present (VITE_GROQ_API_KEY w) then throw (Error ''No Groq API Key'')
      else
        ([GroqFetch],
         (case groq_fetch w (GroqRequest msgs json_mode max_tokens) of
            FetchFailed \<Rightarrow> Inl NetworkError
          | Response ok body \<Rightarrow>
              (if \<not> ok then
                 Inl (case body of Inl e \<Rightarrow> e | Inr d \<Rightarrow> Error ''Groq API Error'')
               else
                 (case body of
                    Inl e \<Rightarrow> Inl e
                  | Inr d \<Rightarrow>
                      (case choices d of
                         None \<Rightarrow> Inl TypeError
                       | Some [] \<Rightarrow> Inr []
                       | Some (c # cs) \<Rightarrow>
                           Inr (case choice_message c of
                                  None \<Rightarrow> []
                                | Some m \<Rightarrow>
                                    (case message_content m of None \<Rightarrow> [] | Some s \<Rightarrow> s))))))))"

text \<open>
  \<open>parseJSON\<close> of the Groq service: the whole text; else, when a fence is found, what is
  inside it; else, when a bracketed span is found, that span; \<open>null\<close> when none parses.
\<close>

definition groq_parseJSON :: "world \<Rightarrow> string \<Rightarrow> jsval result" where
  "groq_parseJSON w s =
     (case JSON_parse w s of
        Inr v \<Rightarrow> Inr v
      | Inl e \<Rightarrow>
          (case fence_match s of
             Some g \<Rightarrow> (case JSON_parse w (trim g) of Inr v \<Rightarrow> Inr v | Inl e' \<Rightarrow> Inr JNull)
           | None \<Rightarrow>
               (case json_match s of
                  Some m \<Rightarrow> (case JSON_parse w m of Inr v \<Rightarrow> Inr v | Inl e' \<Rightarrow> Inr JNull)
                | None \<Rightarrow> Inr JNull)))"

text \<open>\<open>v?.toString()\<close>\<close>

fun opt_toString :: "world \<Rightarrow> jsval \<Rightarrow> jsval result" where
  "opt_toString w JUndefined = Inr JUndefined"
| "opt_toString w JNull = Inr JUndefined"
| "opt_toString w (JStr s) = Inr (JStr s)"
| "opt_toString w (JBool b) = Inr (JStr (if b then ''true'' else ''false''))"
| "opt_toString w v = toString_other w v"

text \<open>The number that \<open>Math.max\<close> and \<open>Math.min\<close> make of an argument.\<close>

fun ToNumber :: "world \<Rightarrow> jsval \<Rightarrow> jsval result" where
  "ToNumber w (JNum n) = Inr (JNum n)"
| "ToNumber w JNaN = Inr JNaN"
| "ToNumber w JUndefined = Inr JNaN"
| "ToNumber w JNull = Inr (JNum 0)"
| "ToNumber w (JBool b) = Inr (JNum (if b then 1 else 0))"
| "ToNumber w v = ToNumber_other w v"

fun Math_max :: "jsval \<Rightarrow> jsval \<Rightarrow> jsval" where
  "Math_max (JNum a) (JNum b) = JNum (max a b)"
| "Math_max a b = JNaN"

fun Math_min :: "jsval \<Rightarrow> jsval \<Rightarrow> jsval" where
  "Math_min (JNum a) (JNum b) = JNum (min a b)"
| "Math_min a b = JNaN"

text \<open>\<open>history.slice(-n)\<close>\<close>

definition slice_last :: "nat \<Rightarrow> 'a list \<Rightarrow> 'a list" where
  "slice_last n xs = drop (length xs - n) xs"

fun join :: "string \<Rightarrow> string list \<Rightarrow> string" where
  "join sep [] = []"
| "join sep [x] = x"
| "join sep (x # y # ys) = x @ sep @ join sep (y # ys)"

definition history_message :: "history_entry \<Rightarrow> chat_message" where
  "history_message msg =
     ChatMessage (if entry_role msg = ''user'' then ''user'' else ''assistant'') (entry_text msg)"

definition groq_search_system :: string where
  "groq_search_system =
     ''You are a knowledgeable book search engine. Return a JSON array of 6 real books matching the query.'' @ nl
     @ ''Each book must have: title, author, description (2 sentences), publishedYear, categories (array), coverColor (pastel hex), isbn (valid ISBN-13).'' @ nl
     @ ''Only return real, existing books. If the query makes no sense, return an empty array [].''"

definition groq_search_item :: "world \<Rightarrow> nat \<Rightarrow> jsval \<Rightarrow> jsval result" where
  "groq_search_item w i item =
     (if nullish item then Inl TypeError
      else
        (case opt_toString w (get_prop item ''publishedYear'') of
           Inl e \<Rightarrow> Inl e
         | Inr y \<Rightarrow>
             Inr (JObj
               [(''id'', JStr (''groq-search-'' @ string_of_nat (Date_now w i) @ ''-'' @ string_of_nat i)),
                (''title'', or_else (get_prop item ''title'') (JStr ''Unknown'')),
                (''author'', or_else (get_prop item ''author'') (JStr ''Unknown'')),
                (''coverColor'', or_else (get_prop item ''coverColor'') (JStr ''#e2e8f0'')),
                (''isbn'', get_prop item ''isbn''),
                (''description'', or_else (get_prop item ''description'') (JStr ''A great book.'')),
                (''isLocal'', JBool False),
                (''publishedYear'', or_else y (JStr ''Unknown'')),
                (''categories'', or_else (get_prop item ''categories'') (JArr [])),
                (''source'', JStr ''groq'')])))"

definition groq_searchBooks_try :: "world \<Rightarrow> string \<Rightarrow> jsval list io" where
  "groq_searchBooks_try w query =
     await
       (callGroq w
          [ChatMessage ''system'' groq_search_system,
           ChatMessage ''user'' (''Search for books: '' @ dq @ query @ dq)]
          True 2048)
       (\<lambda>response.
          await (lift (groq_parseJSON w response)) (\<lambda>data.
            if \<not> truthy data \<or> \<not> isArray data then fb_searchBooks w query
            else lift (map_result (groq_search_item w) 0 (elements data))))"

definition groq_searchBooks :: "world \<Rightarrow> string \<Rightarrow> jsval list io" where
  "groq_searchBooks w query =
     (if \<not> present (VITE_GROQ_API_KEY w) then fb_searchBooks w query
      else
        try_catch (groq_searchBooks_try w query)
          (fb_searchBooks w query))"

definition groq_concierge_system :: string where
  "groq_concierge_system =
     ''You are '' @ dq @ ''Suitcase'' @ dq @ '', a warm and witty literary concierge. Have natural conversations about books.'' @ nl
     @ ''Return JSON with: { '' @ dq @ ''reply'' @ dq @ '': '' @ dq @ ''your conversational response'' @ dq @ '', '' @ dq @ ''suggestions'' @ dq @ '': [] }'' @ nl
     @ ''If recommending books, include in suggestions array: title, author, description, publishedYear, categories, coverColor (pastel hex), isbn, matchReason.'' @ nl
     @ ''Only suggest 1-3 books when relevant. Can have empty suggestions for casual chat.''"

text \<open>The item of the concierge and of the recommendations, but for the id and the colour.\<close>

definition groq_book_item :: "world \<Rightarrow> string \<Rightarrow> string \<Rightarrow> nat \<Rightarrow> jsval \<Rightarrow> jsval result" where
  "groq_book_item w prefix colour i item =
     (if nullish item then Inl TypeError
      else
        (case opt_toString w (get_prop item ''publishedYear'') of
           Inl e \<Rightarrow> Inl e
         | Inr y \<Rightarrow>
             Inr (JObj
               [(''id'', JStr (prefix @ string_of_nat (Date_now w i) @ ''-'' @ string_of_nat i)),
                (''title'', get_prop item ''title''),
                (''author'', get_prop item ''author''),
                (''coverColor'', or_else (get_prop item ''coverColor'') (JStr colour)),
                (''isbn'', get_prop item ''isbn''),
                (''description'', get_prop item ''description''),
                (''isLocal'', JBool False),
                (''publishedYear'', y),
                (''categories'', or_else (get_prop item ''categories'') (JArr [])),
                (''matchReason'', get_prop item ''matchReason''),
                (''source'', JStr ''groq'')])))"

definition groq_consultConcierge_try :: "world \<Rightarrow> string \<Rightarrow> history_entry list \<Rightarrow> concierge io" where
  "groq_consultConcierge_try w userMessage history =
     await
       (callGroq w
          (ChatMessage ''system'' groq_concierge_system
             # map history_message (slice_last 6 history)
             @ [ChatMessage ''user'' userMessage])
          True 2048)
       (\<lambda>response.
          await (lift (groq_parseJSON w response)) (\<lambda>data.
            if \<not> truthy data then resolve (Concierge (JStr response) [])
            else
              (case or_else (get_prop data ''suggestions'') (JArr []) of
                 JArr items \<Rightarrow>
                   await (lift (map_result (groq_book_item w ''groq-concierge-'' ''#cbd5e1'') 0 items))
                     (\<lambda>books.
                        resolve (Concierge
                          (or_else (get_prop data ''reply'')
                             (JStr (''I'' @ apos @ ''m thinking about that...'')))
                          books))
               | v \<Rightarrow> throw TypeError)))"

definition groq_consultConcierge :: "world \<Rightarrow> string \<Rightarrow> history_entry list \<Rightarrow> concierge io" where
  "groq_consultConcierge w userMessage history =
     (if \<not> present (VITE_GROQ_API_KEY w) then fb_consultConcierge w userMessage history
      else
        try_catch (groq_consultConcierge_try w userMessage history)
          (fb_consultConcierge w userMessage history))"

definition groq_onboarding_prompt :: "UserPreferences \<Rightarrow> string" where
  "groq_onboarding_prompt prefs =
     ''Based on these preferences, recommend 4 books:'' @ nl
     @ ''Genres: '' @ join '', '' (genres prefs) @ nl
     @ ''Reading Goal: '' @ readingGoal prefs @ nl
     @ nl
     @ ''Return JSON array with: title, author, description, publishedYear, categories, coverColor (pastel hex), isbn, matchReason.''"

definition groq_getOnboardingRecommendations_try :: "world \<Rightarrow> UserPreferences \<Rightarrow> jsval list io" where
  "groq_getOnboardingRecommendations_try w prefs =
     await
       (callGroq w
          [ChatMessage ''system'' ''You are a book recommendation expert. Return only a JSON array of books.'',
           ChatMessage ''user'' (groq_onboarding_prompt prefs)]
          True 2048)
       (\<lambda>response.
          await (lift (groq_parseJSON w response)) (\<lambda>data.
            if \<not> truthy data \<or> \<not> isArray data then fb_getOnboardingRecommendations w prefs
            else lift (map_result (groq_book_item w ''groq-rec-'' ''#e2e8f0'') 0 (elements data))))"

definition groq_getOnboardingRecommendations :: "world \<Rightarrow> UserPreferences \<Rightarrow> jsval list io" where
  "groq_getOnboardingRecommendations w prefs =
     (if \<not> present (VITE_GROQ_API_KEY w) then fb_getOnboardingRecommendations w prefs
      else
        try_catch (groq_getOnboardingRecommendations_try w prefs)
          (fb_getOnboardingRecommendations w prefs))"

definition groq_review_item :: "world \<Rightarrow> nat \<Rightarrow> jsval \<Rightarrow> jsval result" where
  "groq_review_item w i item =
     (if nullish item then Inl TypeError
      else
        (case ToNumber w (or_else (get_prop item ''rating'') (JNum 4)) of
           Inl e \<Rightarrow> Inl e
         | Inr r \<Rightarrow>
             Inr (JObj
               [(''id'', JStr (''groq-review-'' @ string_of_nat i)),
                (''reviewerName'', or_else (get_prop item ''reviewerName'') (JStr ''Reader'')),
                (''rating'', Math_min (JNum 5) (Math_max (JNum 1) r)),
                (''text'', or_else (get_prop item ''text'') (JStr ''Great book!'')),
                (''date'', or_else (get_prop item ''date'') (JStr ''Recently'')),
                (''avatarColor'', or_else (get_prop item ''avatarColor'') (JStr ''#3b82f6''))])))"

definition groq_generateReviews_try :: "world \<Rightarrow> string \<Rightarrow> string \<Rightarrow> jsval list io" where
  "groq_generateReviews_try w title author =
     await
       (callGroq w
          [ChatMessage ''system'' ''Generate 3 realistic book reviews. Return JSON array with: reviewerName, rating (1-5), text, date, avatarColor (hex).'',
           ChatMessage ''user'' (''Generate reviews for '' @ dq @ title @ dq @ '' by '' @ author)]
          True 2048)
       (\<lambda>response.
          await (lift (groq_parseJSON w response)) (\<lambda>data.
            if \<not> truthy data \<or> \<not> isArray data then fb_generateReviews w title author
            else lift (map_result (groq_review_item w) 0 (elements data))))"

definition groq_generateReviews :: "world \<Rightarrow> string \<Rightarrow> string \<Rightarrow> jsval list io" where
  "groq_generateReviews w title author =
     (if \<not> present (VITE_GROQ_API_KEY w) then fb_generateReviews w title author
      else
        try_catch (groq_generateReviews_try w title author)
          (fb_generateReviews w title author))"

definition groq_chatAboutBook_try :: "world \<Rightarrow> string \<Rightarrow> string \<Rightarrow> history_entry list \<Rightarrow> string io" where
  "groq_chatAboutBook_try w bookTitle userMessage history =
     callGroq w
       (ChatMessage ''system''
          (''You are a literary companion discussing '' @ dq @ bookTitle @ dq @ ''. Be helpful, insightful, and engaging. Keep responses concise (2-3 paragraphs max).'')
          # map history_message (slice_last 4 history)
          @ [ChatMessage ''user'' userMessage])
       False 512"

definition groq_chatAboutBook :: "world \<Rightarrow> string \<Rightarrow> string \<Rightarrow> history_entry list \<Rightarrow> string io" where
  "groq_chatAboutBook w bookTitle userMessage history =
     (if \<not> present (VITE_GROQ_API_KEY w) then fb_chatAboutBook w bookTitle userMessage history
      else
        try_catch (groq_chatAboutBook_try w bookTitle userMessage history)
          (fb_chatAboutBook w bookTitle userMessage history))"

text \<open>The target language defaults to English.\<close>

definition lang_or_default :: "string option \<Rightarrow> string" where
  "lang_or_default l = (case l of None \<Rightarrow> ''English'' | Some s \<Rightarrow> s)"

definition groq_translate_messages :: "string \<Rightarrow> string option \<Rightarrow> chat_message list" where
  "groq_translate_messages s targetLang =
     [ChatMessage ''system''
        (''You are a translator. Translate the text to '' @ lang_or_default targetLang @ ''. Return only the translation.''),
      ChatMessage ''user'' s]"

definition groq_translateText_try :: "world \<Rightarrow> string \<Rightarrow> string option \<Rightarrow> string io" where
  "groq_translateText_try w s targetLang =
     callGroq w (groq_translate_messages s targetLang) False 512"

definition groq_translateText :: "world \<Rightarrow> string \<Rightarrow> string option \<Rightarrow> string io" where
  "groq_translateText w s targetLang =
     (if \<not> present (VITE_GROQ_API_KEY w) then fb_translateText w s
      else
        try_catch (groq_translateText_try w s targetLang)
          (fb_translateText w s))"

definition groq_explainContext_try :: "world \<Rightarrow> string \<Rightarrow> string \<Rightarrow> string io" where
  "groq_explainContext_try w s bookTitle =
     callGroq w
       [ChatMessage ''system''
          (''Explain the context and meaning of this text from '' @ dq @ bookTitle @ dq @ ''. Be concise but insightful (2-3 paragraphs).''),
        ChatMessage ''user'' s]
       False 512"

definition groq_explainContext :: "world \<Rightarrow> string \<Rightarrow> string \<Rightarrow> string io" where
  "groq_explainContext w s bookTitle =
     (if \<not> present (VITE_GROQ_API_KEY w) then fb_explainContext w s bookTitle
      else
        try_catch (groq_explainContext_try w s bookTitle)
          (fb_explainContext w s bookTitle))"

definition groq_content_system :: "world \<Rightarrow> string \<Rightarrow> string \<Rightarrow> jsval \<Rightarrow> string" where
  "groq_content_system w title author chapter =
     ''Write the content for Chapter '' @ ToString_number w chapter @ '' of '' @ dq @ title @ dq @ '' by '' @ author @ ''. '' @ nl
     @ ''CRITICAL INSTRUCTION:'' @ nl
     @ ''1. If this book is in the PUBLIC DOMAIN (classic), you MUST provide the ORIGINAL, VERBATIM text for this chapter. Do not summarize, do not adapt. Give me the real text.'' @ nl
     @ ''2. If it is copyrighted, write a detail-rich, scene-by-scene adaptation that is at least 2000 words long.'' @ nl
     @ ''3. Allow the response to be very long. Do not cut it short.'' @ nl
     @ ''4. Use HTML formatting (<h3>, <p>, <em>).''"

definition groq_generateBookContent_try :: "world \<Rightarrow> string \<Rightarrow> string \<Rightarrow> jsval option \<Rightarrow> string io" where
  "groq_generateBookContent_try w title author chapter =
     await
       (callGroq w
          [ChatMessage ''system'' (groq_content_system w title author (chapter_or_default chapter)),
           ChatMessage ''user''
             (''Write full Chapter '' @ ToString_number w (chapter_or_default chapter) @ '' verbatim if possible'')]
          False 6000)
       (\<lambda>response.
          if response \<noteq> [] then resolve response
          else fb_generateBookContent w title author chapter)"

definition groq_generateBookContent :: "world \<Rightarrow> string \<Rightarrow> string \<Rightarrow> jsval option \<Rightarrow> string io" where
  "groq_generateBookContent w title author chapter =
     (if \<not> present (VITE_GROQ_API_KEY w) then fb_generateBookContent w title author chapter
      else
        try_catch (groq_generateBookContent_try w title author chapter)
          (fb_generateBookContent w title author chapter))"

definition groq_getBookSummary_try :: "world \<Rightarrow> string \<Rightarrow> string io" where
  "groq_getBookSummary_try w title =
     callGroq w
       [ChatMessage ''system'' ''Provide a concise, engaging summary of this book in 2-3 paragraphs.'',
        ChatMessage ''user'' (''Summarize '' @ dq @ title @ dq)]
       False 512"

definition groq_getBookSummary :: "world \<Rightarrow> string \<Rightarrow> string io" where
  "groq_getBookSummary w title =
     (if \<not> present (VITE_GROQ_API_KEY w) then fb_getBookSummary w title
      else
        try_catch (groq_getBookSummary_try w title)
          (fb_getBookSummary w title))"

definition groq_getBookRecap_try :: "world \<Rightarrow> string \<Rightarrow> string io" where
  "groq_getBookRecap_try w title =
     callGroq w
       [ChatMessage ''system'' ''Provide a detailed plot recap of this book, covering major events and themes. 3-4 paragraphs.'',
        ChatMessage ''user'' (''Recap '' @ dq @ title @ dq)]
       False 768"

definition groq_getBookRecap :: "world \<Rightarrow> string \<Rightarrow> string io" where
  "groq_getBookRecap w title =
     (if \<not> present (VITE_GROQ_API_KEY w) then fb_getBookRecap w title
      else
        try_catch (groq_getBookRecap_try w title)
          (fb_getBookRecap w title))"

section \<open>The Gemini service\<close>

text \<open>
  \<open>parseJSON\<close> of the Gemini service: the empty array for no text; the whole text; else the
  text without its fences; the empty array when neither parses.
\<close>

definition gm_parseJSON :: "world \<Rightarrow> string option \<Rightarrow> jsval result" where
  "gm_parseJSON w t =
     (case t of
        None \<Rightarrow> Inr (JArr [])
      | Some s \<Rightarrow>
          (if s = [] then Inr (JArr [])
           else
             (case JSON_parse w s of
                Inr v \<Rightarrow> Inr v
              | Inl e \<Rightarrow>
                  (case JSON_parse w (trim (strip_fences s)) of
                     Inr v \<Rightarrow> Inr v
                   | Inl e2 \<Rightarrow> Inr (JArr [])))))"

text \<open>\<open>ai.models.generateContent\<close>: one call of the SDK.\<close>

definition gm_generate :: "world \<Rightarrow> string \<Rightarrow> response_schema option \<Rightarrow> string option io" where
  "gm_generate w prompt schema =
     ([GeminiCall],
      (case generateContent w (GeminiRequest prompt schema) of
         Inl e \<Rightarrow> Inl e
       | Inr r \<Rightarrow> Inr (response_text r)))"

text \<open>\<open>data.map(f)\<close> on a value typed \<open>any\<close>: only an array has the method.\<close>

definition any_map :: "(nat \<Rightarrow> jsval \<Rightarrow> jsval result) \<Rightarrow> jsval \<Rightarrow> jsval list result" where
  "any_map f data = (if isArray data then map_result f 0 (elements data) else Inl TypeError)"

definition history_json :: "history_entry list \<Rightarrow> jsval" where
  "history_json h =
     JArr (map (\<lambda>e. JObj [(''role'', JStr (entry_role e)), (''text'', JStr (entry_text e))]) h)"

text \<open>\<open>text || d\<close> on the reply's text.\<close>

definition text_or :: "string option \<Rightarrow> string \<Rightarrow> string" where
  "text_or t d = (case t of None \<Rightarrow> d | Some s \<Rightarrow> (if s = [] then d else s))"

definition gm_search_prompt :: "string \<Rightarrow> string" where
  "gm_search_prompt query =
     nl
        @ ''      You are the search engine for the world'' @ apos @ ''s largest digital library.'' @ nl
        @ ''      The user is searching for: '' @ dq @ query @ dq @ ''.'' @ nl
        @ ''      '' @ nl
        @ ''      Instructions:'' @ nl
        @ ''      1. If the query specifies a particular book title (e.g., '' @ dq @ ''The Great Gatsby'' @ dq @ ''), return that specific book first.'' @ nl
        @ ''      2. If the query is a genre or topic (e.g., '' @ dq @ ''Sci-Fi'' @ dq @ '', '' @ dq @ ''Cooking'' @ dq @ ''), return 6 popular, high-quality books in that category.'' @ nl
        @ ''      3. If the query is nonsense, random characters, or matches no known books (e.g., '' @ dq @ ''asdfghjkl'' @ dq @ ''), return an EMPTY array [].'' @ nl
        @ ''      4. CRITICAL: Provide a valid real-world '' @ apos @ ''isbn'' @ apos @ '' (ISBN-13 preferred) for every book so we can display the cover.'' @ nl
        @ ''      '' @ nl
        @ ''      For '' @ apos @ ''description'' @ apos @ '', write a compelling 2-sentence hook.'' @ nl
        @ ''      For '' @ apos @ ''coverColor'' @ apos @ '', generate a unique, aesthetic pastel hex code for each book as a fallback.'' @ nl
        @ ''    ''"

definition gm_search_item :: "world \<Rightarrow> nat \<Rightarrow> jsval \<Rightarrow> jsval result" where
  "gm_search_item w i item =
     (if nullish item then Inl TypeError
      else
        Inr (JObj
          [(''id'', JStr (''gemini-search-'' @ string_of_nat (Date_now w i) @ ''-'' @ string_of_nat i)),
           (''title'', get_prop item ''title''),
           (''author'', get_prop item ''author''),
           (''coverColor'', or_else (get_prop item ''coverColor'') (JStr ''#E2E8F0'')),
           (''isbn'', get_prop item ''isbn''),
           (''description'', get_prop item ''description''),
           (''isLocal'', JBool False),
           (''publishedYear'', get_prop item ''publishedYear''),
           (''categories'', or_else (get_prop item ''categories'') (JArr [])),
           (''fileUrl'', JUndefined)]))"

definition gm_searchBooks_try :: "world \<Rightarrow> string \<Rightarrow> jsval list io" where
  "gm_searchBooks_try w query =
     await (gm_generate w (gm_search_prompt query) (Some BookList)) (\<lambda>t.
       await (lift (gm_parseJSON w t)) (\<lambda>data.
         lift (any_map (gm_search_item w) data)))"

definition gm_searchBooks :: "world \<Rightarrow> string \<Rightarrow> jsval list io" where
  "gm_searchBooks w query =
     (if \<not> present (API_KEY w) then fb_searchBooks w query
      else
        try_catch (gm_searchBooks_try w query)
          (fb_searchBooks w query))"

definition gm_concierge_prompt :: "world \<Rightarrow> string \<Rightarrow> history_entry list \<Rightarrow> string" where
  "gm_concierge_prompt w userMessage history =
     nl
        @ ''            You are a sophisticated, warm, and highly knowledgeable literary concierge named '' @ dq @ ''Suitcase'' @ dq @ ''.'' @ nl
        @ ''            Your goal is to have a natural conversation with the user to help them find the perfect book.'' @ nl
        @ ''            '' @ nl
        @ ''            Conversation History:'' @ nl
        @ ''            '' @ JSON_stringify w (history_json (slice_last 6 history)) @ nl
        @ ''            '' @ nl
        @ ''            Current User Input: '' @ dq @ userMessage @ dq @ nl
        @ ''            '' @ nl
        @ ''            Instructions:'' @ nl
        @ ''            1. Respond conversationally to the user'' @ apos @ ''s input. Be witty and helpful.'' @ nl
        @ ''            2. If the user is asking for books, feeling a certain way, or discussing genres, provide 1-3 highly curated recommendations.'' @ nl
        @ ''            3. If the user is just saying hello or asking a general question, reply without suggestions.'' @ nl
        @ ''            4. '' @ apos @ ''matchReason'' @ apos @ '' should be a personalized sentence about why you picked this book for them.'' @ nl
        @ ''        ''"

text \<open>The item of the concierge and of the recommendations, but for the id.\<close>

definition gm_book_item :: "world \<Rightarrow> string \<Rightarrow> nat \<Rightarrow> jsval \<Rightarrow> jsval result" where
  "gm_book_item w prefix i item =
     (if nullish item then Inl TypeError
      else
        Inr (JObj
          [(''id'', JStr (prefix @ string_of_nat (Date_now w i) @ ''-'' @ string_of_nat i)),
           (''title'', get_prop item ''title''),
           (''author'', get_prop item ''author''),
           (''coverColor'', or_else (get_prop item ''coverColor'') (JStr ''#E2E8F0'')),
           (''isbn'', get_prop item ''isbn''),
           (''description'', get_prop item ''description''),
           (''isLocal'', JBool False),
           (''publishedYear'', get_prop item ''publishedYear''),
           (''categories'', or_else (get_prop item ''categories'') (JArr [])),
           (''matchReason'', get_prop item ''matchReason''),
           (''fileUrl'', JUndefined)]))"

definition gm_consultConcierge_try :: "world \<Rightarrow> string \<Rightarrow> history_entry list \<Rightarrow> concierge io" where
  "gm_consultConcierge_try w userMessage history =
     await (gm_generate w (gm_concierge_prompt w userMessage history) (Some ConciergeReply)) (\<lambda>t.
       await (lift (gm_parseJSON w t)) (\<lambda>data.
         if nullish data then throw TypeError
         else
           await (lift (any_map (gm_book_item w ''concierge-'')
                          (or_else (get_prop data ''suggestions'') (JArr []))))
             (\<lambda>books.
                resolve (Concierge
                  (or_else (get_prop data ''reply'')
                     (JStr (''I'' @ apos @ ''m pondering that thought...'')))
                  books))))"

definition gm_consultConcierge :: "world \<Rightarrow> string \<Rightarrow> history_entry list \<Rightarrow> concierge io" where
  "gm_consultConcierge w userMessage history =
     (if \<not> present (API_KEY w) then fb_consultConcierge w userMessage history
      else
        try_catch (gm_consultConcierge_try w userMessage history)
          (fb_consultConcierge w userMessage history))"

definition gm_onboarding_prompt :: "UserPreferences \<Rightarrow> string" where
  "gm_onboarding_prompt prefs =
     nl
        @ ''        The user loves these genres: '' @ join '', '' (genres prefs) @ ''.'' @ nl
        @ ''        Their reading goal is: '' @ readingGoal prefs @ ''.'' @ nl
        @ ''        '' @ nl
        @ ''        Recommend 4 diverse, highly-rated books that fit this profile.'' @ nl
        @ ''        Use soft, elegant colors for coverColor as fallback.'' @ nl
        @ ''        CRITICAL: Provide a valid '' @ apos @ ''isbn'' @ apos @ '' for each book for cover lookup.'' @ nl
        @ ''      ''"

definition gm_getOnboardingRecommendations_try :: "world \<Rightarrow> UserPreferences \<Rightarrow> jsval list io" where
  "gm_getOnboardingRecommendations_try w prefs =
     await (gm_generate w (gm_onboarding_prompt prefs) (Some RecommendationList)) (\<lambda>t.
       await (lift (gm_parseJSON w t)) (\<lambda>data.
         lift (any_map (gm_book_item w ''gemini-onboarding-'') data)))"

definition gm_getOnboardingRecommendations :: "world \<Rightarrow> UserPreferences \<Rightarrow> jsval list io" where
  "gm_getOnboardingRecommendations w prefs =
     (if \<not> present (API_KEY w) then fb_getOnboardingRecommendations w prefs
      else
        try_catch (gm_getOnboardingRecommendations_try w prefs)
          (fb_getOnboardingRecommendations w prefs))"

definition gm_reviews_prompt :: "string \<Rightarrow> string \<Rightarrow> string" where
  "gm_reviews_prompt title author =
     nl
        @ ''      Generate 4 realistic user reviews for '' @ dq @ title @ dq @ '' by '' @ author @ ''.'' @ nl
        @ ''      Style: Goodreads or Amazon reviews. '' @ nl
        @ ''      Mix of lengths. Some detailed, some short. '' @ nl
        @ ''      Vary the ratings (mostly positive but maybe one critical).'' @ nl
        @ ''    ''"

definition colors :: "string list" where
  "colors = [''#EF4444'', ''#F59E0B'', ''#10B981'', ''#3B82F6'', ''#8B5CF6'', ''#EC4899'']"

definition gm_review_item :: "nat \<Rightarrow> jsval \<Rightarrow> jsval result" where
  "gm_review_item i item =
     (if nullish item then Inl TypeError
      else
        Inr (JObj
          [(''id'', JStr (''review-'' @ string_of_nat i)),
           (''reviewerName'', get_prop item ''reviewerName''),
           (''rating'', get_prop item ''rating''),
           (''text'', get_prop item ''text''),
           (''date'', get_prop item ''date''),
           (''avatarColor'', JStr (colors ! (i mod length colors)))]))"

definition gm_generateReviews_try :: "world \<Rightarrow> string \<Rightarrow> string \<Rightarrow> jsval list io" where
  "gm_generateReviews_try w title author =
     await (gm_generate w (gm_reviews_prompt title author) (Some ReviewList)) (\<lambda>t.
       await (lift (gm_parseJSON w t)) (\<lambda>data.
         lift (any_map gm_review_item data)))"

definition gm_generateReviews :: "world \<Rightarrow> string \<Rightarrow> string \<Rightarrow> jsval list io" where
  "gm_generateReviews w title author =
     (if \<not> present (API_KEY w) then fb_generateReviews w title author
      else
        try_catch (gm_generateReviews_try w title author)
          (fb_generateReviews w title author))"

definition gm_chat_prompt :: "world \<Rightarrow> string \<Rightarrow> string \<Rightarrow> history_entry list \<Rightarrow> string" where
  "gm_chat_prompt w bookTitle userMessage chatHistory =
     nl
        @ ''            You are an expert literary scholar and reading companion.'' @ nl
        @ ''            Context: The user is currently reading '' @ dq @ bookTitle @ dq @ ''.'' @ nl
        @ ''            '' @ nl
        @ ''            Previous Conversation:'' @ nl
        @ ''            '' @ JSON_stringify w (history_json (slice_last 5 chatHistory)) @ nl
        @ ''            '' @ nl
        @ ''            User Question: '' @ dq @ userMessage @ dq @ nl
        @ ''            '' @ nl
        @ ''            Answer concisely but deeply. If they ask about plot, be careful with spoilers unless asked.'' @ nl
        @ ''        ''"

definition gm_chatAboutBook_try :: "world \<Rightarrow> string \<Rightarrow> string \<Rightarrow> history_entry list \<Rightarrow> string io" where
  "gm_chatAboutBook_try w bookTitle userMessage chatHistory =
     await (gm_generate w (gm_chat_prompt w bookTitle userMessage chatHistory) None) (\<lambda>t.
       resolve (text_or t (''I couldn'' @ apos @ ''t generate a response.'')))"

definition gm_chatAboutBook :: "world \<Rightarrow> string \<Rightarrow> string \<Rightarrow> history_entry list \<Rightarrow> string io" where
  "gm_chatAboutBook w bookTitle userMessage chatHistory =
     (if \<not> present (API_KEY w) then fb_chatAboutBook w bookTitle userMessage chatHistory
      else
        try_catch (gm_chatAboutBook_try w bookTitle userMessage chatHistory)
          (fb_chatAboutBook w bookTitle userMessage chatHistory))"

definition gm_translate_prompt :: "string \<Rightarrow> string option \<Rightarrow> string" where
  "gm_translate_prompt s targetLang =
     ''Translate the following literary text to '' @ lang_or_default targetLang @ ''. Preserve the tone and style: '' @ dq @ s @ dq"

definition gm_translateText_try :: "world \<Rightarrow> string \<Rightarrow> string option \<Rightarrow> string io" where
  "gm_translateText_try w s targetLang =
     await (gm_generate w (gm_translate_prompt s targetLang) None) (\<lambda>t.
       resolve (text_or t ''Translation failed.''))"

definition gm_translateText :: "world \<Rightarrow> string \<Rightarrow> string option \<Rightarrow> string io" where
  "gm_translateText w s targetLang =
     (if \<not> present (API_KEY w) then fb_translateText w s
      else
        try_catch (gm_translateText_try w s targetLang)
          (fb_translateText w s))"

definition gm_explain_prompt :: "string \<Rightarrow> string \<Rightarrow> string" where
  "gm_explain_prompt s bookTitle =
     ''The user is reading '' @ dq @ bookTitle @ dq @ '' and highlighted this text: '' @ dq @ s @ dq @ ''.'' @ nl
        @ ''        Explain this excerpt in simple terms. Provide necessary context, historical background, or define archaic words.''"

definition gm_explainContext_try :: "world \<Rightarrow> string \<Rightarrow> string \<Rightarrow> string io" where
  "gm_explainContext_try w s bookTitle =
     await (gm_generate w (gm_explain_prompt s bookTitle) None) (\<lambda>t.
       resolve (text_or t ''Could not explain context.''))"

definition gm_explainContext :: "world \<Rightarrow> string \<Rightarrow> string \<Rightarrow> string io" where
  "gm_explainContext w s bookTitle =
     (if \<not> present (API_KEY w) then fb_explainContext w s bookTitle
      else
        try_catch (gm_explainContext_try w s bookTitle)
          (fb_explainContext w s bookTitle))"

definition gm_content_prompt :: "world \<Rightarrow> string \<Rightarrow> string \<Rightarrow> jsval \<Rightarrow> string" where
  "gm_content_prompt w title author chapter =
     nl
        @ ''          The user wants to read **Chapter '' @ ToString_number w chapter @ ''** of the book '' @ dq @ title @ dq @ '' by '' @ author @ ''.'' @ nl
        @ ''          '' @ nl
        @ ''          Instructions:'' @ nl
        @ ''          1. Write the FULL text for **Chapter '' @ ToString_number w chapter @ ''**. '' @ nl
        @ ''          2. If it is a public domain book, provide the exact text.'' @ nl
        @ ''          3. If it is copyrighted, write a very detailed, high-fidelity narrative adaptation that covers all events, dialogue, and descriptions of the chapter so the user can read it like a real book.'' @ nl
        @ ''          4. Length: Write at least 800-1200 words. Do not be brief.'' @ nl
        @ ''          5. Formatting: Use clean HTML. Use <h3> for the Chapter Title. Use <p> for paragraphs.'' @ nl
        @ ''          '' @ nl
        @ ''          Do NOT use markdown code blocks. Just return the HTML string.'' @ nl
        @ ''        ''"

text \<open>\<open>text.replace(/```html|```/g, '')\<close>\<close>

fun strip_html_fences :: "string \<Rightarrow> string" where
  "strip_html_fences [] = []"
| "strip_html_fences (c # cs) =
     (if starts_with ''```html'' (c # cs) then strip_html_fences (drop 7 (c # cs))
      else if starts_with ''```'' (c # cs) then strip_html_fences (drop 3 (c # cs))
      else c # strip_html_fences cs)"

definition gm_generateBookContent_try :: "world \<Rightarrow> string \<Rightarrow> string \<Rightarrow> jsval option \<Rightarrow> string io" where
  "gm_generateBookContent_try w title author chapter =
     await (gm_generate w (gm_content_prompt w title author (chapter_or_default chapter)) None) (\<lambda>t.
       resolve (trim (strip_html_fences (text_or t ''<p>Content unavailable.</p>''))))"

definition gm_generateBookContent :: "world \<Rightarrow> string \<Rightarrow> string \<Rightarrow> jsval option \<Rightarrow> string io" where
  "gm_generateBookContent w title author chapter =
     (if \<not> present (API_KEY w) then fb_generateBookContent w title author chapter
      else
        try_catch (gm_generateBookContent_try w title author chapter)
          (fb_generateBookContent w title author chapter))"

definition gm_getBookSummary_try :: "world \<Rightarrow> string \<Rightarrow> string io" where
  "gm_getBookSummary_try w title =
     await (gm_generate w
              (''Provide a comprehensive summary of the book '' @ dq @ title @ dq @ ''. Cover the main plot points, themes, and character arcs.'')
              None)
       (\<lambda>t. resolve (text_or t ''Summary unavailable.''))"

definition gm_getBookSummary :: "world \<Rightarrow> string \<Rightarrow> string io" where
  "gm_getBookSummary w title =
     (if \<not> present (API_KEY w) then fb_getBookSummary w title
      else
        try_catch (gm_getBookSummary_try w title)
          (fb_getBookSummary w title))"

definition gm_getBookRecap_try :: "world \<Rightarrow> string \<Rightarrow> string io" where
  "gm_getBookRecap_try w title =
     await (gm_generate w
              (''The user is reading '' @ dq @ title @ dq @ '' and has forgotten what happened previously. Provide a quick recap of the beginning/setup of the book to jog their memory.'')
              None)
       (\<lambda>t. resolve (text_or t ''Recap unavailable.''))"

definition gm_getBookRecap :: "world \<Rightarrow> string \<Rightarrow> string io" where
  "gm_getBookRecap w title =
     (if \<not> present (API_KEY w) then fb_getBookRecap w title
      else
        try_catch (gm_getBookRecap_try w title)
          (fb_getBookRecap w title))"

section \<open>The unified service\<close>

definition getProvider :: "world \<Rightarrow> string" where
  "getProvider w =
     (if present (VITE_GROQ_API_KEY w) then ''groq''
      else if present (VITE_GEMINI_API_KEY w) then ''gemini''
      else ''fallback'')"

text \<open>A module: its ten exported functions.\<close>

record service =
  svc_searchBooks :: "world \<Rightarrow> string \<Rightarrow> jsval list io"
  svc_consultConcierge :: "world \<Rightarrow> string \<Rightarrow> history_entry list \<Rightarrow> concierge io"
  svc_getOnboardingRecommendations :: "world \<Rightarrow> UserPreferences \<Rightarrow> jsval list io"
  svc_generateReviews :: "world \<Rightarrow> string \<Rightarrow> string \<Rightarrow> jsval list io"
  svc_chatAboutBook :: "world \<Rightarrow> string \<Rightarrow> string \<Rightarrow> history_entry list \<Rightarrow> string io"
  svc_translateText :: "world \<Rightarrow> string \<Rightarrow> string option \<Rightarrow> string io"
  svc_explainContext :: "world \<Rightarrow> string \<Rightarrow> string \<Rightarrow> string io"
  svc_generateBookContent :: "world \<Rightarrow> string \<Rightarrow> string \<Rightarrow> jsval option \<Rightarrow> string io"
  svc_getBookSummary :: "world \<Rightarrow> string \<Rightarrow> string io"
  svc_getBookRecap :: "world \<Rightarrow> string \<Rightarrow> string io"

definition GroqService :: service where
  "GroqService =
     \<lparr>svc_searchBooks = groq_searchBooks,
      svc_consultConcierge = groq_consultConcierge,
      svc_getOnboardingRecommendations = groq_getOnboardingRecommendations,
      svc_generateReviews = groq_generateReviews,
      svc_chatAboutBook = groq_chatAboutBook,
      svc_translateText = groq_translateText,
      svc_explainContext = groq_explainContext,
      svc_generateBookContent = groq_generateBookContent,
      svc_getBookSummary = groq_getBookSummary,
      svc_getBookRecap = groq_getBookRecap\<rparr>"

definition GeminiService :: service where
  "GeminiService =
     \<lparr>svc_searchBooks = gm_searchBooks,
      svc_consultConcierge = gm_consultConcierge,
      svc_getOnboardingRecommendations = gm_getOnboardingRecommendations,
      svc_generateReviews = gm_generateReviews,
      svc_chatAboutBook = gm_chatAboutBook,
      svc_translateText = gm_translateText,
      svc_explainContext = gm_explainContext,
      svc_generateBookContent = gm_generateBookContent,
      svc_getBookSummary = gm_getBookSummary,
      svc_getBookRecap = gm_getBookRecap\<rparr>"

text \<open>The fallback's \<open>translateText\<close> has one parameter: a second argument is dropped.\<close>

definition FallbackService :: service where
  "FallbackService =
     \<lparr>svc_searchBooks = fb_searchBooks,
      svc_consultConcierge = fb_consultConcierge,
      svc_getOnboardingRecommendations = fb_getOnboardingRecommendations,
      svc_generateReviews = fb_generateReviews,
      svc_chatAboutBook = fb_chatAboutBook,
      svc_translateText = (\<lambda>w s targetLang. fb_translateText w s),
      svc_explainContext = fb_explainContext,
      svc_generateBookContent = fb_generateBookContent,
      svc_getBookSummary = fb_getBookSummary,
      svc_getBookRecap = fb_getBookRecap\<rparr>"

text \<open>The module evaluates \<open>provider\<close> and \<open>activeService\<close> once, from the environment.\<close>

definition provider :: "world \<Rightarrow> string" where
  "provider w = getProvider w"

definition activeService :: "world \<Rightarrow> service" where
  "activeService w =
     (if provider w = ''groq'' then GroqService
      else if provider w = ''gemini'' then GeminiService
      else FallbackService)"

definition searchBooks :: "world \<Rightarrow> string \<Rightarrow> jsval list io" where
  "searchBooks w = svc_searchBooks (activeService w) w"

definition consultConcierge :: "world \<Rightarrow> string \<Rightarrow> history_entry list \<Rightarrow> concierge io" where
  "consultConcierge w = svc_consultConcierge (activeService w) w"

definition getOnboardingRecommendations :: "world \<Rightarrow> UserPreferences \<Rightarrow> jsval list io" where
  "getOnboardingRecommendations w = svc_getOnboardingRecommendations (activeService w) w"

definition generateReviews :: "world \<Rightarrow> string \<Rightarrow> string \<Rightarrow> jsval list io" where
  "generateReviews w = svc_generateReviews (activeService w) w"

definition chatAboutBook :: "world \<Rightarrow> string \<Rightarrow> string \<Rightarrow> history_entry list \<Rightarrow> string io" where
  "chatAboutBook w = svc_chatAboutBook (activeService w) w"

definition translateText :: "world \<Rightarrow> string \<Rightarrow> string option \<Rightarrow> string io" where
  "translateText w = svc_translateText (activeService w) w"

definition explainContext :: "world \<Rightarrow> string \<Rightarrow> string \<Rightarrow> string io" where
  "explainContext w = svc_explainContext (activeService w) w"

definition generateBookContent :: "world \<Rightarrow> string \<Rightarrow> string \<Rightarrow> jsval option \<Rightarrow> string io" where
  "generateBookContent w = svc_generateBookContent (activeService w) w"

definition getBookSummary :: "world \<Rightarrow> string \<Rightarrow> string io" where
  "getBookSummary w = svc_getBookSummary (activeService w) w"

definition getBookRecap :: "world \<Rightarrow> string \<Rightarrow> string io" where
  "getBookRecap w = svc_getBookRecap (activeService w) w"

definition getActiveProvider :: "world \<Rightarrow> string" where
  "getActiveProvider w = provider w"

definition isAIAvailable :: "world \<Rightarrow> bool" where
  "isAIAvailable w = (provider w \<noteq> ''fallback'')"

section \<open>What the claims speak of\<close>

text \<open>A call resolves when it ends with a value, and rejects when it ends with an error.\<close>

definition resolves :: "'a io \<Rightarrow> bool" where
  "resolves m = (case snd m of Inl e \<Rightarrow> False | Inr v \<Rightarrow> True)"

text \<open>The declared type of a text field, of \<open>reply\<close>, \<open>title\<close>, \<open>author\<close>: a string.\<close>

fun is_string :: "jsval \<Rightarrow> bool" where
  "is_string (JStr s) = True"
| "is_string v = False"

text \<open>A record of a list result: an object whose \<open>id\<close> is a string.\<close>

fun has_id :: "jsval \<Rightarrow> bool" where
  "has_id (JObj kvs) = is_string (get_prop (JObj kvs) ''id'')"
| "has_id v = False"

text \<open>
  Worlds for the examples. \<open>sample_parse\<close> is \<open>JSON.parse\<close> on the texts of the examples:
  these documents parse to the values shown, the other texts of the examples are not JSON.
  The other builtins are never reached in the examples.
\<close>

definition reply_one_empty :: string where
  "reply_one_empty = ''[{}]''"

definition reply_rating_zero :: string where
  "reply_rating_zero = ''[{'' @ dq @ ''rating'' @ dq @ '':0}]''"

definition reply_rating_nine :: string where
  "reply_rating_nine = ''[{'' @ dq @ ''rating'' @ dq @ '':9}]''"

definition reply_titled :: string where
  "reply_titled = ''[{'' @ dq @ ''title'' @ dq @ '':'' @ dq @ ''A'' @ dq @ ''}]''"

definition reply_number :: string where
  "reply_number = ''{'' @ dq @ ''reply'' @ dq @ '':5}''"

definition reply_null_item :: string where
  "reply_null_item = ''[null]''"

definition sample_parse :: "string \<Rightarrow> jsval result" where
  "sample_parse s =
     (if s = ''[]'' then Inr (JArr [])
      else if s = ''[1]'' then Inr (JArr [JNum 1])
      else if s = reply_one_empty then Inr (JArr [JObj []])
      else if s = reply_rating_zero then Inr (JArr [JObj [(''rating'', JNum 0)]])
      else if s = reply_rating_nine then Inr (JArr [JObj [(''rating'', JNum 9)]])
      else if s = reply_titled then Inr (JArr [JObj [(''title'', JStr ''A'')]])
      else if s = reply_number then Inr (JObj [(''reply'', JNum 5)])
      else if s = reply_null_item then Inr (JArr [JNull])
      else Inl SyntaxError)"

text \<open>Replies of a model: a document, a fenced document, a broken fence, prose.\<close>

definition reply_fenced :: string where
  "reply_fenced = ''```json'' @ nl @ ''[1]'' @ nl @ ''```''"

definition reply_broken_fence :: string where
  "reply_broken_fence = ''```json nope``` [1]''"

definition reply_prose :: string where
  "reply_prose = ''Here: [1] ok''"

definition sample_preferences :: UserPreferences where
  "sample_preferences =
     \<lparr>name = Some ''Ada'', genres = [''Sci-Fi'', ''History''], readingGoal = ''Learning'',
      onboardingComplete = False, joinDate = 1700000000000\<rparr>"

definition offline_world :: world where
  "offline_world =
     \<lparr>JSON_parse = sample_parse,
      JSON_stringify = (\<lambda>v. ''[]''),
      ToNumber_other = (\<lambda>v. Inr JNaN),
      toString_other = (\<lambda>v. Inl TypeError),
      Date_now = (\<lambda>i. 1700000000000),
      ToString_number = (\<lambda>v. ''1''),
      VITE_GROQ_API_KEY = None,
      VITE_GEMINI_API_KEY = None,
      API_KEY = None,
      VITE_HF_TOKEN = None,
      groq_fetch = (\<lambda>r. FetchFailed),
      hf_fetch = (\<lambda>r. FetchFailed),
      generateContent = (\<lambda>r. Inl NetworkError)\<rparr>"

text \<open>Both live keys are set and every request fails.\<close>

definition down_world :: world where
  "down_world =
     offline_world\<lparr>VITE_GROQ_API_KEY := Some ''gsk_example'',
                   VITE_GEMINI_API_KEY := Some ''AIza_example'',
                   API_KEY := Some ''AIza_example''\<rparr>"

text \<open>The Groq key is set and every completion has the given content.\<close>

definition groq_world :: "string \<Rightarrow> world" where
  "groq_world s =
     offline_world\<lparr>VITE_GROQ_API_KEY := Some ''gsk_example'',
                   groq_fetch := (\<lambda>r. Response True
                     (Inr (GroqData (Some [GroqChoice (Some (GroqMessage (Some s)))]))))\<rparr>"

text \<open>The Gemini keys are set and every reply has the given text.\<close>

definition gemini_world :: "string \<Rightarrow> world" where
  "gemini_world s =
     offline_world\<lparr>VITE_GEMINI_API_KEY := Some ''AIza_example'',
                   API_KEY := Some ''AIza_example'',
                   generateContent := (\<lambda>r. Inr (GeminiResponse (Some s)))\<rparr>"

text \<open>Only the inference token is set and every generation is the given text.\<close>

definition hf_world :: "string \<Rightarrow> world" where
  "hf_world s =
     offline_world\<lparr>VITE_HF_TOKEN := Some ''hf_example'',
                   hf_fetch := (\<lambda>r. Response True (Inr (Some [HFItem (Some s)])))\<rparr>"

section \<open>Provider selection\<close>

lemma getProvider_cases:
  "getProvider w = ''groq'' \<longleftrightarrow> present (VITE_GROQ_API_KEY w)"
  "getProvider w = ''gemini'' \<longleftrightarrow> \<not> present (VITE_GROQ_API_KEY w) \<and> present (VITE_GEMINI_API_KEY w)"
  "getProvider w = ''fallback'' \<longleftrightarrow> \<not> present (VITE_GROQ_API_KEY w) \<and> \<not> present (VITE_GEMINI_API_KEY w)"
  by (simp_all add: getProvider_def)

lemma activeService_eq:
  "activeService w =
     (if present (VITE_GROQ_API_KEY w) then GroqService
      else if present (VITE_GEMINI_API_KEY w) then GeminiService
      else FallbackService)"
  by (simp add: activeService_def provider_def getProvider_def)

text \<open>
  Claim C2. The provider is chosen from the environment alone: \<open>groq\<close> exactly when the Groq
  key is set, else \<open>gemini\<close> exactly when the Gemini key is set, else \<open>fallback\<close>.
  \<open>getActiveProvider\<close> returns that name, \<open>isAIAvailable\<close> is false exactly for
  \<open>fallback\<close>, and the ten exported functions are those of the one chosen module.
\<close>

theorem provider_selection:
  "getActiveProvider w =
     (if present (VITE_GROQ_API_KEY w) then ''groq''
      else if present (VITE_GEMINI_API_KEY w) then ''gemini''
      else ''fallback'')
   \<and> (getActiveProvider w = ''groq'') = present (VITE_GROQ_API_KEY w)
   \<and> (getActiveProvider w = ''gemini'') =
       (\<not> present (VITE_GROQ_API_KEY w) \<and> present (VITE_GEMINI_API_KEY w))
   \<and> (getActiveProvider w = ''fallback'') =
       (\<not> present (VITE_GROQ_API_KEY w) \<and> \<not> present (VITE_GEMINI_API_KEY w))
   \<and> isAIAvailable w = (getActiveProvider w \<noteq> ''fallback'')
   \<and> (searchBooks w, consultConcierge w, getOnboardingRecommendations w, generateReviews w,
        chatAboutBook w, translateText w, explainContext w, generateBookContent w,
        getBookSummary w, getBookRecap w) =
       (if getActiveProvider w = ''groq'' then
          (groq_searchBooks w, groq_consultConcierge w, groq_getOnboardingRecommendations w,
           groq_generateReviews w, groq_chatAboutBook w, groq_translateText w,
           groq_explainContext w, groq_generateBookContent w, groq_getBookSummary w,
           groq_getBookRecap w)
        else if getActiveProvider w = ''gemini'' then
          (gm_searchBooks w, gm_consultConcierge w, gm_getOnboardingRecommendations w,
           gm_generateReviews w, gm_chatAboutBook w, gm_translateText w,
           gm_explainContext w, gm_generateBookContent w, gm_getBookSummary w,
           gm_getBookRecap w)
        else
          (fb_searchBooks w, fb_consultConcierge w, fb_getOnboardingRecommendations w,
           fb_generateReviews w, fb_chatAboutBook w, (\<lambda>s targetLang. fb_translateText w s),
           fb_explainContext w, fb_generateBookContent w, fb_getBookSummary w,
           fb_getBookRecap w))"
  unfolding getActiveProvider_def isAIAvailable_def provider_def getProvider_cases
    searchBooks_def consultConcierge_def getOnboardingRecommendations_def generateReviews_def
    chatAboutBook_def translateText_def explainContext_def generateBookContent_def
    getBookSummary_def getBookRecap_def activeService_eq
  by (simp add: getProvider_def GroqService_def GeminiService_def FallbackService_def)

theorem provider_selection_witness:
  "getActiveProvider offline_world = ''fallback''
   \<and> \<not> isAIAvailable offline_world
   \<and> getActiveProvider down_world = ''groq''
   \<and> isAIAvailable down_world
   \<and> getActiveProvider (gemini_world ''[]'') = ''gemini''
   \<and> searchBooks down_world = groq_searchBooks down_world
   \<and> getBookRecap (gemini_world ''[]'') = gm_getBookRecap (gemini_world ''[]'')
   \<and> generateReviews offline_world = fb_generateReviews offline_world"
proof -
  have k: "VITE_GROQ_API_KEY offline_world = None" "VITE_GEMINI_API_KEY offline_world = None"
    "VITE_GROQ_API_KEY down_world = Some ''gsk_example''"
    "VITE_GROQ_API_KEY (gemini_world ''[]'') = None"
    "VITE_GEMINI_API_KEY (gemini_world ''[]'') = Some ''AIza_example''"
    by (simp_all add: offline_world_def down_world_def gemini_world_def)
  show ?thesis
    using provider_selection [of offline_world] provider_selection [of down_world]
      provider_selection [of "gemini_world ''[]''"]
    by (auto simp add: k)
qed

section \<open>Calls never reject\<close>

lemma resolves_iff: "resolves m \<longleftrightarrow> (\<exists>v. snd m = Inr v)"
  by (simp add: resolves_def split: sum.splits)

lemma resolves_if: "resolves a \<Longrightarrow> resolves b \<Longrightarrow> resolves (if c then a else b)"
  by simp

lemma resolves_resolve: "resolves (resolve x)"
  by (simp add: resolve_def resolves_def)

lemma resolves_try_catch: "resolves h \<Longrightarrow> resolves (try_catch m h)"
  by (cases m; cases h) (auto simp: try_catch_def resolves_def split: sum.splits)

lemma resolves_enter: "resolves m \<Longrightarrow> resolves (enter c m)"
  by (cases m) (auto simp: enter_def resolves_def)

lemma snd_try_catch_throw: "snd m = Inl e \<Longrightarrow> snd (try_catch m h) = snd h"
  by (cases m; cases h) (auto simp: try_catch_def)

lemma snd_await_throw: "snd m = Inl e \<Longrightarrow> snd (await m f) = Inl e"
  by (cases m) (auto simp: await_def)

lemma snd_enter: "snd (enter c m) = snd m"
  by (cases m) (auto simp: enter_def)

lemmas fb_defs = fb_searchBooks_def fb_searchBooks_try_def fb_consultConcierge_def fb_consultConcierge_try_def fb_getOnboardingRecommendations_def
  fb_generateReviews_def fb_chatAboutBook_def fb_chatAboutBook_try_def fb_translateText_def fb_translateText_try_def fb_explainContext_def fb_explainContext_try_def
  fb_generateBookContent_def fb_generateBookContent_try_def fb_getBookSummary_def fb_getBookSummary_try_def fb_getBookRecap_def fb_getBookRecap_try_def

lemma fb_resolves:
  "resolves (fb_searchBooks w query)"
  "resolves (fb_consultConcierge w userMessage history)"
  "resolves (fb_getOnboardingRecommendations w prefs)"
  "resolves (fb_generateReviews w title author)"
  "resolves (fb_chatAboutBook w bookTitle userMessage history)"
  "resolves (fb_translateText w s)"
  "resolves (fb_explainContext w s bookTitle)"
  "resolves (fb_generateBookContent w title author chapter)"
  "resolves (fb_getBookSummary w title)"
  "resolves (fb_getBookRecap w title)"
  unfolding fb_defs
  by (intro resolves_enter resolves_try_catch resolves_resolve)+

lemmas groq_defs = groq_searchBooks_def groq_searchBooks_try_def groq_consultConcierge_def groq_consultConcierge_try_def
  groq_getOnboardingRecommendations_def groq_getOnboardingRecommendations_try_def groq_generateReviews_def groq_generateReviews_try_def groq_chatAboutBook_def groq_chatAboutBook_try_def
  groq_translateText_def groq_translateText_try_def groq_explainContext_def groq_explainContext_try_def groq_generateBookContent_def groq_generateBookContent_try_def
  groq_getBookSummary_def groq_getBookSummary_try_def groq_getBookRecap_def groq_getBookRecap_try_def

lemma groq_resolves:
  "resolves (groq_searchBooks w query)"
  "resolves (groq_consultConcierge w userMessage history)"
  "resolves (groq_getOnboardingRecommendations w prefs)"
  "resolves (groq_generateReviews w title author)"
  "resolves (groq_chatAboutBook w bookTitle userMessage history)"
  "resolves (groq_translateText w s targetLang)"
  "resolves (groq_explainContext w s bookTitle)"
  "resolves (groq_generateBookContent w title author chapter)"
  "resolves (groq_getBookSummary w title)"
  "resolves (groq_getBookRecap w title)"
  unfolding groq_defs
  by (intro resolves_if resolves_try_catch fb_resolves)+

lemmas gm_defs = gm_searchBooks_def gm_searchBooks_try_def gm_consultConcierge_def gm_consultConcierge_try_def
  gm_getOnboardingRecommendations_def gm_getOnboardingRecommendations_try_def gm_generateReviews_def gm_generateReviews_try_def gm_chatAboutBook_def gm_chatAboutBook_try_def
  gm_translateText_def gm_translateText_try_def gm_explainContext_def gm_explainContext_try_def gm_generateBookContent_def gm_generateBookContent_try_def
  gm_getBookSummary_def gm_getBookSummary_try_def gm_getBookRecap_def gm_getBookRecap_try_def

lemma gm_resolves:
  "resolves (gm_searchBooks w query)"
  "resolves (gm_consultConcierge w userMessage history)"
  "resolves (gm_getOnboardingRecommendations w prefs)"
  "resolves (gm_generateReviews w title author)"
  "resolves (gm_chatAboutBook w bookTitle userMessage history)"
  "resolves (gm_translateText w s targetLang)"
  "resolves (gm_explainContext w s bookTitle)"
  "resolves (gm_generateBookContent w title author chapter)"
  "resolves (gm_getBookSummary w title)"
  "resolves (gm_getBookRecap w title)"
  unfolding gm_defs
  by (intro resolves_if resolves_try_catch fb_resolves)+

lemma groq_delegates:
  assumes "\<forall>msgs j n. \<exists>e. snd (callGroq w msgs j n) = Inl e"
  shows
  "snd (groq_searchBooks w query) = snd (fb_searchBooks w query)"
  "snd (groq_consultConcierge w userMessage history) = snd (fb_consultConcierge w userMessage history)"
  "snd (groq_getOnboardingRecommendations w prefs) = snd (fb_getOnboardingRecommendations w prefs)"
  "snd (groq_generateReviews w title author) = snd (fb_generateReviews w title author)"
  "snd (groq_chatAboutBook w bookTitle userMessage history) = snd (fb_chatAboutBook w bookTitle userMessage history)"
  "snd (groq_translateText w s targetLang) = snd (fb_translateText w s)"
  "snd (groq_explainContext w s bookTitle) = snd (fb_explainContext w s bookTitle)"
  "snd (groq_generateBookContent w title author chapter) = snd (fb_generateBookContent w title author chapter)"
  "snd (groq_getBookSummary w title) = snd (fb_getBookSummary w title)"
  "snd (groq_getBookRecap w title) = snd (fb_getBookRecap w title)"
proof -
  have t: "\<And>msgs j n f h. snd (try_catch (await (callGroq w msgs j n) f) h) = snd h"
    using assms by (metis snd_await_throw snd_try_catch_throw)
  have u: "\<And>msgs j n h. snd (try_catch (callGroq w msgs j n) h) = snd h"
    using assms by (metis snd_try_catch_throw)
  show "snd (groq_searchBooks w query) = snd (fb_searchBooks w query)"
    by (simp add: groq_searchBooks_def groq_searchBooks_try_def t)
  show "snd (groq_consultConcierge w userMessage history) = snd (fb_consultConcierge w userMessage history)"
    by (simp add: groq_consultConcierge_def groq_consultConcierge_try_def t)
  show "snd (groq_getOnboardingRecommendations w prefs) = snd (fb_getOnboardingRecommendations w prefs)"
    by (simp add: groq_getOnboardingRecommendations_def groq_getOnboardingRecommendations_try_def t)
  show "snd (groq_generateReviews w title author) = snd (fb_generateReviews w title author)"
    by (simp add: groq_generateReviews_def groq_generateReviews_try_def t)
  show "snd (groq_chatAboutBook w bookTitle userMessage history) = snd (fb_chatAboutBook w bookTitle userMessage history)"
    by (simp add: groq_chatAboutBook_def groq_chatAboutBook_try_def u)
  show "snd (groq_translateText w s targetLang) = snd (fb_translateText w s)"
    by (simp add: groq_translateText_def groq_translateText_try_def u)
  show "snd (groq_explainContext w s bookTitle) = snd (fb_explainContext w s bookTitle)"
    by (simp add: groq_explainContext_def groq_explainContext_try_def u)
  show "snd (groq_generateBookContent w title author chapter) = snd (fb_generateBookContent w title author chapter)"
    by (simp add: groq_generateBookContent_def groq_generateBookContent_try_def t)
  show "snd (groq_getBookSummary w title) = snd (fb_getBookSummary w title)"
    by (simp add: groq_getBookSummary_def groq_getBookSummary_try_def u)
  show "snd (groq_getBookRecap w title) = snd (fb_getBookRecap w title)"
    by (simp add: groq_getBookRecap_def groq_getBookRecap_try_def u)
qed

lemma gm_delegates:
  assumes "\<forall>p sch. \<exists>e. snd (gm_generate w p sch) = Inl e"
  shows
  "snd (gm_searchBooks w query) = snd (fb_searchBooks w query)"
  "snd (gm_consultConcierge w userMessage history) = snd (fb_consultConcierge w userMessage history)"
  "snd (gm_getOnboardingRecommendations w prefs) = snd (fb_getOnboardingRecommendations w prefs)"
  "snd (gm_generateReviews w title author) = snd (fb_generateReviews w title author)"
  "snd (gm_chatAboutBook w bookTitle userMessage history) = snd (fb_chatAboutBook w bookTitle userMessage history)"
  "snd (gm_translateText w s targetLang) = snd (fb_translateText w s)"
  "snd (gm_explainContext w s bookTitle) = snd (fb_explainContext w s bookTitle)"
  "snd (gm_generateBookContent w title author chapter) = snd (fb_generateBookContent w title author chapter)"
  "snd (gm_getBookSummary w title) = snd (fb_getBookSummary w title)"
  "snd (gm_getBookRecap w title) = snd (fb_getBookRecap w title)"
proof -
  have t: "\<And>p sch f h. snd (try_catch (await (gm_generate w p sch) f) h) = snd h"
    using assms by (metis snd_await_throw snd_try_catch_throw)
  show "snd (gm_searchBooks w query) = snd (fb_searchBooks w query)"
    by (simp add: gm_searchBooks_def gm_searchBooks_try_def t)
  show "snd (gm_consultConcierge w userMessage history) = snd (fb_consultConcierge w userMessage history)"
    by (simp add: gm_consultConcierge_def gm_consultConcierge_try_def t)
  show "snd (gm_getOnboardingRecommendations w prefs) = snd (fb_getOnboardingRecommendations w prefs)"
    by (simp add: gm_getOnboardingRecommendations_def gm_getOnboardingRecommendations_try_def t)
  show "snd (gm_generateReviews w title author) = snd (fb_generateReviews w title author)"
    by (simp add: gm_generateReviews_def gm_generateReviews_try_def t)
  show "snd (gm_chatAboutBook w bookTitle userMessage history) = snd (fb_chatAboutBook w bookTitle userMessage history)"
    by (simp add: gm_chatAboutBook_def gm_chatAboutBook_try_def t)
  show "snd (gm_translateText w s targetLang) = snd (fb_translateText w s)"
    by (simp add: gm_translateText_def gm_translateText_try_def t)
  show "snd (gm_explainContext w s bookTitle) = snd (fb_explainContext w s bookTitle)"
    by (simp add: gm_explainContext_def gm_explainContext_try_def t)
  show "snd (gm_generateBookContent w title author chapter) = snd (fb_generateBookContent w title author chapter)"
    by (simp add: gm_generateBookContent_def gm_generateBookContent_try_def t)
  show "snd (gm_getBookSummary w title) = snd (fb_getBookSummary w title)"
    by (simp add: gm_getBookSummary_def gm_getBookSummary_try_def t)
  show "snd (gm_getBookRecap w title) = snd (fb_getBookRecap w title)"
    by (simp add: gm_getBookRecap_def gm_getBookRecap_try_def t)
qed

lemma snd_try_catch_resolve: "snd m = Inl e \<Longrightarrow> snd (try_catch m (resolve x)) = Inr x"
  by (simp add: snd_try_catch_throw resolve_def)

lemma fb_literals:
  assumes "\<forall>sys usr. \<exists>e. snd (callLLM w sys usr) = Inl e"
  shows
  "snd (fb_searchBooks w query) = Inr offline_books"
  "snd (fb_consultConcierge w userMessage history) = Inr fb_concierge_offline"
  "snd (fb_chatAboutBook w bookTitle userMessage history) =
     Inr (''I can'' @ apos @ ''t analyze this book right now due to connection issues.'')"
  "snd (fb_translateText w s) = Inr ''Translation service unavailable.''"
  "snd (fb_explainContext w s bookTitle) = Inr ''Context service unavailable.''"
  "snd (fb_generateBookContent w title author chapter) =
     Inr (fb_content_offline w title (chapter_or_default chapter))"
  "snd (fb_getBookSummary w title) = Inr ''Summary unavailable offline.''"
  "snd (fb_getBookRecap w title) = Inr ''Recap unavailable offline.''"
proof -
  have t: "\<And>sys usr f x. snd (try_catch (await (callLLM w sys usr) f) (resolve x)) = Inr x"
    using assms by (metis snd_await_throw snd_try_catch_resolve)
  have u: "\<And>sys usr x. snd (try_catch (callLLM w sys usr) (resolve x)) = Inr x"
    using assms by (metis snd_try_catch_resolve)
  show "snd (fb_searchBooks w query) = Inr offline_books"
    by (simp only: fb_searchBooks_def fb_searchBooks_try_def snd_enter t)
  show "snd (fb_consultConcierge w userMessage history) = Inr fb_concierge_offline"
    by (simp only: fb_consultConcierge_def fb_consultConcierge_try_def snd_enter t)
  show "snd (fb_chatAboutBook w bookTitle userMessage history) =
     Inr (''I can'' @ apos @ ''t analyze this book right now due to connection issues.'')"
    by (simp only: fb_chatAboutBook_def fb_chatAboutBook_try_def snd_enter u)
  show "snd (fb_translateText w s) = Inr ''Translation service unavailable.''"
    by (simp only: fb_translateText_def fb_translateText_try_def snd_enter u)
  show "snd (fb_explainContext w s bookTitle) = Inr ''Context service unavailable.''"
    by (simp only: fb_explainContext_def fb_explainContext_try_def snd_enter u)
  show "snd (fb_generateBookContent w title author chapter) =
     Inr (fb_content_offline w title (chapter_or_default chapter))"
    by (simp only: fb_generateBookContent_def fb_generateBookContent_try_def snd_enter t)
  show "snd (fb_getBookSummary w title) = Inr ''Summary unavailable offline.''"
    by (simp only: fb_getBookSummary_def fb_getBookSummary_try_def snd_enter u)
  show "snd (fb_getBookRecap w title) = Inr ''Recap unavailable offline.''"
    by (simp only: fb_getBookRecap_def fb_getBookRecap_try_def snd_enter u)
qed

lemma fb_fixed:
  "fb_getOnboardingRecommendations w prefs =
     ([Fallback GetOnboardingRecommendations], Inr offline_recommendations)"
  "fb_generateReviews w title author = ([Fallback GenerateReviews], Inr offline_reviews)"
  by (simp_all add: fb_getOnboardingRecommendations_def fb_generateReviews_def enter_def resolve_def)

lemma service_resolves:
  assumes "svc \<in> {GroqService, GeminiService, FallbackService}"
  shows
  "resolves (svc_searchBooks svc w query)"
  "resolves (svc_consultConcierge svc w userMessage history)"
  "resolves (svc_getOnboardingRecommendations svc w prefs)"
  "resolves (svc_generateReviews svc w title author)"
  "resolves (svc_chatAboutBook svc w bookTitle userMessage history)"
  "resolves (svc_translateText svc w s targetLang)"
  "resolves (svc_explainContext svc w s bookTitle)"
  "resolves (svc_generateBookContent svc w title author chapter)"
  "resolves (svc_getBookSummary svc w title)"
  "resolves (svc_getBookRecap svc w title)"
  using assms
  by (auto simp: GroqService_def GeminiService_def FallbackService_def
      groq_resolves gm_resolves fb_resolves)

lemma activeService_mem: "activeService w \<in> {GroqService, GeminiService, FallbackService}"
  by (simp add: activeService_def)

lemma exported_resolves:
  "resolves (searchBooks w query)"
  "resolves (consultConcierge w userMessage history)"
  "resolves (getOnboardingRecommendations w prefs)"
  "resolves (generateReviews w title author)"
  "resolves (chatAboutBook w bookTitle userMessage history)"
  "resolves (translateText w s targetLang)"
  "resolves (explainContext w s bookTitle)"
  "resolves (generateBookContent w title author chapter)"
  "resolves (getBookSummary w title)"
  "resolves (getBookRecap w title)"
  unfolding searchBooks_def consultConcierge_def getOnboardingRecommendations_def
    generateReviews_def chatAboutBook_def translateText_def explainContext_def
    generateBookContent_def getBookSummary_def getBookRecap_def
  by (rule service_resolves [OF activeService_mem])+

lemma down_world_calls:
  "\<forall>msgs j n. \<exists>e. snd (callGroq down_world msgs j n) = Inl e"
  "\<forall>p sch. \<exists>e. snd (gm_generate down_world p sch) = Inl e"
  "\<forall>sys usr. \<exists>e. snd (callLLM down_world sys usr) = Inl e"
  by (simp_all add: callGroq_def gm_generate_def callLLM_def down_world_def offline_world_def
      throw_def)

section \<open>The normalizers\<close>

lemma not_json_matches:
  "fence_match ''not json at all'' = None"
  "json_match ''not json at all'' = None"
  "strip_fences ''not json at all'' = ''not json at all''"
  "trim ''not json at all'' = ''not json at all''"
  by (simp_all add: fence_match_def trim_def is_space_def)

lemma reply_fenced_matches:
  "fence_match reply_fenced = Some (''[1]'' @ nl)"
  "trim (''[1]'' @ nl) = ''[1]''"
  by (simp_all add: reply_fenced_def fence_match_def trim_def nl_def is_space_def)

lemma reply_broken_fence_matches:
  "fence_match reply_broken_fence = Some ''nope''"
  "json_match reply_broken_fence = Some ''[1]''"
  "trim ''nope'' = ''nope''"
  by (simp_all add: reply_broken_fence_def fence_match_def upto_last_def trim_def is_space_def)

lemma reply_prose_matches:
  "fence_match reply_prose = None"
  "json_match reply_prose = Some ''[1]''"
  "strip_fences reply_prose = reply_prose"
  "trim reply_prose = reply_prose"
  "reply_prose \<noteq> []"
  by (simp_all add: reply_prose_def fence_match_def upto_last_def trim_def is_space_def)

lemma sample_parse_values:
  "JSON_parse offline_world ''[1]'' = Inr (JArr [JNum 1])"
  "JSON_parse offline_world ''[]'' = Inr (JArr [])"
  "JSON_parse offline_world ''nope'' = Inl SyntaxError"
  "JSON_parse offline_world ''not json at all'' = Inl SyntaxError"
  "JSON_parse offline_world reply_fenced = Inl SyntaxError"
  "JSON_parse offline_world reply_broken_fence = Inl SyntaxError"
  "JSON_parse offline_world reply_prose = Inl SyntaxError"
  "JSON_parse offline_world reply_one_empty = Inr (JArr [JObj []])"
  "JSON_parse offline_world reply_rating_zero = Inr (JArr [JObj [(''rating'', JNum 0)]])"
  "JSON_parse offline_world reply_rating_nine = Inr (JArr [JObj [(''rating'', JNum 9)]])"
  "JSON_parse offline_world reply_titled = Inr (JArr [JObj [(''title'', JStr ''A'')]])"
  "JSON_parse offline_world reply_number = Inr (JObj [(''reply'', JNum 5)])"
  "JSON_parse offline_world reply_null_item = Inr (JArr [JNull])"
  by (simp_all add: offline_world_def sample_parse_def dq_def nl_def reply_fenced_def
      reply_broken_fence_def reply_prose_def reply_one_empty_def reply_rating_zero_def
      reply_rating_nine_def reply_titled_def reply_number_def reply_null_item_def)

lemma groq_parseJSON_total: "\<exists>v. groq_parseJSON w s = Inr v"
  by (simp add: groq_parseJSON_def split: sum.splits option.splits)

lemma gm_parseJSON_total: "\<exists>v. gm_parseJSON w t = Inr v"
  by (simp add: gm_parseJSON_def split: sum.splits option.splits)

text \<open>
Claim C4, as the code has it. \<open>parseJSON\<close> never throws: on every string it returns a
  value. That of the Groq service returns what the whole text parses to; when the text does
  not parse and has a fence, what the content of the fence parses to, or \<open>null\<close>, and the
  bracketed span is not tried; when there is no fence and there is a bracketed span, what
  the span parses to, or \<open>null\<close>; otherwise \<open>null\<close>. That of the Gemini service returns the
  empty array for no text, what the whole text parses to, otherwise what the text without
  its fences parses to, or the empty array; it extracts no span. On \<open>not json at all\<close>,
  which is not JSON, the first returns \<open>null\<close> and the second the empty array.
\<close>

theorem parseJSON_never_throws:
  "(\<exists>v. groq_parseJSON w s = Inr v)
   \<and> (JSON_parse w s = Inr v \<longrightarrow> groq_parseJSON w s = Inr v)
   \<and> (JSON_parse w s = Inl e \<and> fence_match s = Some g \<longrightarrow>
        groq_parseJSON w s = Inr (case JSON_parse w (trim g) of Inr u \<Rightarrow> u | Inl e' \<Rightarrow> JNull))
   \<and> (JSON_parse w s = Inl e \<and> fence_match s = None \<and> json_match s = Some m \<longrightarrow>
        groq_parseJSON w s = Inr (case JSON_parse w m of Inr u \<Rightarrow> u | Inl e' \<Rightarrow> JNull))
   \<and> (JSON_parse w s = Inl e \<and> fence_match s = None \<and> json_match s = None \<longrightarrow>
        groq_parseJSON w s = Inr JNull)
   \<and> (JSON_parse w ''not json at all'' = Inl e \<longrightarrow>
        groq_parseJSON w ''not json at all'' = Inr JNull
        \<and> gm_parseJSON w (Some ''not json at all'') = Inr (JArr []))
   \<and> (\<exists>v. gm_parseJSON w t = Inr v)
   \<and> gm_parseJSON w None = Inr (JArr [])
   \<and> gm_parseJSON w (Some []) = Inr (JArr [])
   \<and> (s \<noteq> [] \<and> JSON_parse w s = Inr v \<longrightarrow> gm_parseJSON w (Some s) = Inr v)
   \<and> (s \<noteq> [] \<and> JSON_parse w s = Inl e \<longrightarrow>
        gm_parseJSON w (Some s) =
          Inr (case JSON_parse w (trim (strip_fences s)) of Inr u \<Rightarrow> u | Inl e' \<Rightarrow> JArr []))"
proof (intro conjI impI)
  show "\<exists>v. groq_parseJSON w s = Inr v" by (rule groq_parseJSON_total)
  show "\<exists>v. gm_parseJSON w t = Inr v" by (rule gm_parseJSON_total)
  show "JSON_parse w ''not json at all'' = Inl e \<Longrightarrow>
      groq_parseJSON w ''not json at all'' = Inr JNull"
    by (simp add: groq_parseJSON_def not_json_matches)
  show "JSON_parse w ''not json at all'' = Inl e \<Longrightarrow>
      gm_parseJSON w (Some ''not json at all'') = Inr (JArr [])"
    by (simp add: gm_parseJSON_def not_json_matches del: strip_fences.simps)
qed (auto simp: groq_parseJSON_def gm_parseJSON_def split: sum.splits)

theorem parseJSON_never_throws_witness:
  "groq_parseJSON offline_world ''[1]'' = Inr (JArr [JNum 1])
   \<and> groq_parseJSON offline_world reply_fenced = Inr (JArr [JNum 1])
   \<and> groq_parseJSON offline_world reply_broken_fence = Inr JNull
   \<and> groq_parseJSON offline_world reply_prose = Inr (JArr [JNum 1])
   \<and> groq_parseJSON offline_world ''not json at all'' = Inr JNull
   \<and> gm_parseJSON offline_world (Some ''not json at all'') = Inr (JArr [])
   \<and> gm_parseJSON offline_world (Some reply_prose) = Inr (JArr [])
   \<and> gm_parseJSON offline_world (Some ''[1]'') = Inr (JArr [JNum 1])"
proof -
  note t = parseJSON_never_throws [where w = offline_world and e = SyntaxError]
  show ?thesis
    using t [where s = "''[1]''" and v = "JArr [JNum 1]"]
      t [where s = reply_fenced and g = "''[1]'' @ nl"]
      t [where s = reply_broken_fence and g = "''nope''"]
      t [where s = reply_prose and m = "''[1]''"]
      t [where s = "''not json at all''"]
    by (simp only: sample_parse_values reply_fenced_matches reply_broken_fence_matches
        reply_prose_matches not_json_matches sum.case simp_thms list.distinct)
qed

theorem parseJSON_third_attempt_counterexample:
  "JSON_parse offline_world reply_broken_fence = Inl SyntaxError
   \<and> json_match reply_broken_fence = Some ''[1]''
   \<and> JSON_parse offline_world ''[1]'' = Inr (JArr [JNum 1])
   \<and> groq_parseJSON offline_world reply_broken_fence = Inr JNull
   \<and> JSON_parse offline_world reply_prose = Inl SyntaxError
   \<and> json_match reply_prose = Some ''[1]''
   \<and> gm_parseJSON offline_world (Some reply_prose) = Inr (JArr [])"
  by (simp add: sample_parse_values reply_broken_fence_matches reply_prose_matches
      groq_parseJSON_def gm_parseJSON_def)

section \<open>Replies that do not parse, replies that are empty\<close>


lemma await_value: "await (t, Inr x) f = (t @ fst (f x), snd (f x))"
  by (simp add: await_def split: prod.splits)

lemma await_lift: "await (lift (Inr x)) f = f x"
  by (simp add: await_def lift_def split: prod.splits)

lemma resolves_prepend: "resolves (t @ fst m, snd m) = resolves m"
  by (simp add: resolves_def)







lemma callLLM_no_token:
  "\<not> present (VITE_HF_TOKEN w) \<Longrightarrow> callLLM w sys usr = ([], Inl (Error ''No Fallback Key''))"
  by (simp add: callLLM_def throw_def)

lemma await_thrown: "await (t, Inl e) f = (t, Inl e)"
  by (simp add: await_def)

lemma try_catch_thrown: "try_catch ([], Inl e) (resolve x) = ([], Inr x)"
  by (simp add: try_catch_def resolve_def)

lemma enter_value: "enter c (t, r) = (Fallback c # t, r)"
  by (simp add: enter_def)

lemma fb_no_token:
  assumes "\<not> present (VITE_HF_TOKEN w)"
  shows
  "fb_searchBooks w query = ([Fallback SearchBooks], Inr offline_books)"
  "fb_consultConcierge w userMessage history = ([Fallback ConsultConcierge], Inr fb_concierge_offline)"
  "fb_translateText w s = ([Fallback TranslateText], Inr ''Translation service unavailable.'')"
  by (simp_all only: fb_searchBooks_def fb_searchBooks_try_def fb_consultConcierge_def fb_consultConcierge_try_def fb_translateText_def fb_translateText_try_def
      callLLM_no_token [OF assms] await_thrown try_catch_thrown enter_value)

lemma example_worlds:
  "callGroq (groq_world s) msgs j n = ([GroqFetch], Inr s)"
  "JSON_parse (groq_world s) = JSON_parse offline_world"
  "\<not> present (VITE_HF_TOKEN (groq_world s))"
  "Date_now (groq_world s) = (\<lambda>i. 1700000000000)"
  "present (API_KEY (gemini_world s))"
  "gm_generate (gemini_world s) p sch = ([GeminiCall], Inr (Some s))"
  "JSON_parse (gemini_world s) = JSON_parse offline_world"
  "\<not> present (VITE_HF_TOKEN (gemini_world s))"
  by (simp_all add: callGroq_def gm_generate_def groq_world_def gemini_world_def offline_world_def)









section \<open>The fixed lists of the fallback service\<close>

lemma callLLM_trace:
  "present (VITE_HF_TOKEN w) \<Longrightarrow> fst (callLLM w sys usr) = [HFFetch]"
  by (simp add: callLLM_def)

lemma fst_try_catch_resolve:
  "fst (try_catch m (resolve x)) = fst m"
  by (cases m) (auto simp: try_catch_def resolve_def split: sum.splits)

lemma fst_await_pure:
  "(\<And>x. fst (f x) = []) \<Longrightarrow> fst (await m f) = fst m"
proof -
  assume p: "\<And>x. fst (f x) = []"
  show ?thesis
  proof (cases m)
    case (Pair t r)
    show ?thesis
    proof (cases r)
      case (Inl e)
      with Pair show ?thesis by (simp add: await_def)
    next
      case (Inr x)
      with Pair p [of x] show ?thesis by (cases "f x") (simp add: await_def)
    qed
  qed
qed

lemma fst_enter: "fst (enter c m) = Fallback c # fst m"
  by (cases m) (simp add: enter_def)

lemma fb_searchBooks_trace:
  assumes "present (VITE_HF_TOKEN w)"
  shows "fst (fb_searchBooks w query) = [Fallback SearchBooks, HFFetch]"
  unfolding fb_searchBooks_def fb_searchBooks_try_def fst_enter fst_try_catch_resolve
  by (subst fst_await_pure) (simp_all add: callLLM_trace [OF assms] lift_def throw_def Let_def)

text \<open>
Claim C5, as the code has it. The recommendations and the reviews of the fallback service
  are fixed literal lists, returned for every input without any request. Its \<open>searchBooks\<close>
  is not: with the inference token set it sends one request to the inference endpoint, and
  it returns the literal one-book list when that call throws, and without any request when
  the token is not set.
\<close>

theorem fallback_fixed_lists:
  "fb_getOnboardingRecommendations w prefs =
     ([Fallback GetOnboardingRecommendations], Inr offline_recommendations)
   \<and> fb_generateReviews w title author = ([Fallback GenerateReviews], Inr offline_reviews)
   \<and> (\<not> present (VITE_HF_TOKEN w) \<longrightarrow>
        fb_searchBooks w query = ([Fallback SearchBooks], Inr offline_books))
   \<and> (present (VITE_HF_TOKEN w) \<longrightarrow>
        fst (fb_searchBooks w query) = [Fallback SearchBooks, HFFetch])
   \<and> ((\<exists>e. snd (callLLM w fb_search_system (''Search for: '' @ query)) = Inl e) \<longrightarrow>
        snd (fb_searchBooks w query) = Inr offline_books)"
proof (intro conjI impI)
  assume "\<exists>e. snd (callLLM w fb_search_system (''Search for: '' @ query)) = Inl e"
  then obtain e where "snd (callLLM w fb_search_system (''Search for: '' @ query)) = Inl e" ..
  then have a: "snd (await (callLLM w fb_search_system (''Search for: '' @ query)) f) = Inl e" for f
    by (rule snd_await_throw)
  show "snd (fb_searchBooks w query) = Inr offline_books"
    unfolding fb_searchBooks_def fb_searchBooks_try_def snd_enter
    by (rule snd_try_catch_resolve) (rule a)
next
  show "fb_getOnboardingRecommendations w prefs =
     ([Fallback GetOnboardingRecommendations], Inr offline_recommendations)"
    by (rule fb_fixed)
  show "fb_generateReviews w title author = ([Fallback GenerateReviews], Inr offline_reviews)"
    by (rule fb_fixed)
  show "fb_searchBooks w query = ([Fallback SearchBooks], Inr offline_books)"
    if "\<not> present (VITE_HF_TOKEN w)"
    using that by (rule fb_no_token)
  show "fst (fb_searchBooks w query) = [Fallback SearchBooks, HFFetch]"
    if "present (VITE_HF_TOKEN w)"
    using that by (rule fb_searchBooks_trace)
qed

lemma hf_world_calls:
  "present (VITE_HF_TOKEN (hf_world s))"
  "callLLM (hf_world s) sys usr = ([HFFetch], Inr s)"
  "JSON_parse (hf_world s) = JSON_parse offline_world"
  "Date_now (hf_world s) = (\<lambda>i. 1700000000000)"
  by (simp_all add: callLLM_def hf_world_def offline_world_def)

lemma offline_world_keys:
  "\<not> present (VITE_GROQ_API_KEY offline_world)"
  "\<not> present (VITE_GEMINI_API_KEY offline_world)"
  "\<not> present (API_KEY offline_world)"
  "\<not> present (VITE_HF_TOKEN offline_world)"
  by (simp_all add: offline_world_def)

theorem fallback_fixed_lists_witness:
  "\<not> present (VITE_HF_TOKEN offline_world)
   \<and> fb_searchBooks offline_world ''dune'' = ([Fallback SearchBooks], Inr offline_books)
   \<and> present (VITE_HF_TOKEN (hf_world reply_titled))
   \<and> fst (fb_searchBooks (hf_world reply_titled) ''dune'') = [Fallback SearchBooks, HFFetch]
   \<and> snd (callLLM offline_world fb_search_system (''Search for: '' @ ''dune'')) =
       Inl (Error ''No Fallback Key'')"
  using fallback_fixed_lists [where w = offline_world and query = "''dune''"]
    fallback_fixed_lists [where w = "hf_world reply_titled" and query = "''dune''"]
  by (simp add: offline_world_keys hf_world_calls callLLM_no_token del: append.simps)

lemma reply_titled_span: "span_match CHR ''['' CHR '']'' reply_titled = Some reply_titled"
  by (simp add: span_match_def reply_titled_def dq_def upto_last_def)

lemma stamp: "string_of_nat 1700000000000 = ''1700000000000''" "string_of_nat 0 = ''0''"
  by (simp_all add: string_of_nat.simps digit_def)

theorem fallback_search_counterexample:
  "fb_searchBooks (hf_world reply_titled) ''dune'' =
     ([Fallback SearchBooks, HFFetch],
      Inr [JObj [(''title'', JStr ''A''),
                 (''id'', JStr ''fallback-1700000000000-0''),
                 (''categories'', JArr [JStr ''General'']),
                 (''isLocal'', JBool False)]])
   \<and> HFFetch \<in> set (fst (fb_searchBooks (hf_world reply_titled) ''dune''))
   \<and> snd (fb_searchBooks (hf_world reply_titled) ''dune'') \<noteq> Inr offline_books"
proof -
  have x: "extractJSON (hf_world reply_titled) reply_titled = JArr [JObj [(''title'', JStr ''A'')]]"
    by (simp add: extractJSON_def reply_titled_span hf_world_calls sample_parse_values)
  have i: "fb_search_item (hf_world reply_titled) 0 (JObj [(''title'', JStr ''A'')]) =
      Inr (JObj [(''title'', JStr ''A''),
                 (''id'', JStr ''fallback-1700000000000-0''),
                 (''categories'', JArr [JStr ''General'']),
                 (''isLocal'', JBool False)])"
    by (simp add: fb_search_item_def hf_world_calls stamp or_else_def)
  have "fb_searchBooks (hf_world reply_titled) ''dune'' =
     ([Fallback SearchBooks, HFFetch],
      Inr [JObj [(''title'', JStr ''A''),
                 (''id'', JStr ''fallback-1700000000000-0''),
                 (''categories'', JArr [JStr ''General'']),
                 (''isLocal'', JBool False)]])"
    by (simp add: fb_searchBooks_def fb_searchBooks_try_def hf_world_calls await_value x i lift_def try_catch_def
        enter_def del: append.simps)
  then show ?thesis
    by (simp add: offline_books_def)
qed

lemma getOnboardingRecommendations_unset:
  assumes "\<not> present (VITE_GROQ_API_KEY w)" "\<not> present (VITE_GEMINI_API_KEY w)"
  shows "getOnboardingRecommendations w prefs =
    ([Fallback GetOnboardingRecommendations], Inr offline_recommendations)"
  using assms
  by (simp add: getOnboardingRecommendations_def activeService_def provider_def getProvider_def
      FallbackService_def fb_fixed)

text \<open>
Claim C6. With no credential set, \<open>getOnboardingRecommendations\<close> returns the same
  literal list of four books (The Great Gatsby, 1984, Dune, Sapiens, ids \<open>off-1\<close> to
  \<open>off-4\<close>) for any preferences and in any such world, without any request; so do the
  functions of the Groq and of the Gemini service.
\<close>

theorem onboarding_fallback_deterministic:
  "(\<not> present (VITE_GROQ_API_KEY w) \<and> \<not> present (VITE_GEMINI_API_KEY w)
      \<and> \<not> present (API_KEY w) \<and> \<not> present (VITE_HF_TOKEN w)
      \<and> \<not> present (VITE_GROQ_API_KEY w') \<and> \<not> present (VITE_GEMINI_API_KEY w')
      \<and> \<not> present (API_KEY w') \<and> \<not> present (VITE_HF_TOKEN w') \<longrightarrow>
        getOnboardingRecommendations w prefs =
          ([Fallback GetOnboardingRecommendations], Inr offline_recommendations)
      \<and> getOnboardingRecommendations w' prefs' = getOnboardingRecommendations w prefs
      \<and> groq_getOnboardingRecommendations w prefs = getOnboardingRecommendations w prefs
      \<and> gm_getOnboardingRecommendations w prefs = getOnboardingRecommendations w prefs)
   \<and> offline_recommendations =
       [JObj [(''id'', JStr ''off-1''), (''title'', JStr ''The Great Gatsby''),
              (''author'', JStr ''F. Scott Fitzgerald''),
              (''description'', JStr ''A classic of the Jazz Age.''),
              (''publishedYear'', JStr ''1925''), (''categories'', JArr [JStr ''Classic'']),
              (''coverColor'', JStr ''#fef3c7''), (''isbn'', JStr ''9780743273565''),
              (''matchReason'', JStr ''Timeless classic''), (''isLocal'', JBool False)],
        JObj [(''id'', JStr ''off-2''), (''title'', JStr ''1984''),
              (''author'', JStr ''George Orwell''),
              (''description'', JStr ''Dystopian social science fiction.''),
              (''publishedYear'', JStr ''1949''), (''categories'', JArr [JStr ''Sci-Fi'']),
              (''coverColor'', JStr ''#f3f4f6''), (''isbn'', JStr ''9780451524935''),
              (''matchReason'', JStr ''Essential reading''), (''isLocal'', JBool False)],
        JObj [(''id'', JStr ''off-3''), (''title'', JStr ''Dune''),
              (''author'', JStr ''Frank Herbert''),
              (''description'', JStr ''Epic science fiction.''),
              (''publishedYear'', JStr ''1965''), (''categories'', JArr [JStr ''Sci-Fi'']),
              (''coverColor'', JStr ''#fed7aa''), (''isbn'', JStr ''9780441013593''),
              (''matchReason'', JStr ''Masterpiece''), (''isLocal'', JBool False)],
        JObj [(''id'', JStr ''off-4''), (''title'', JStr ''Sapiens''),
              (''author'', JStr ''Yuval Noah Harari''),
              (''description'', JStr ''A brief history of humankind.''),
              (''publishedYear'', JStr ''2011''), (''categories'', JArr [JStr ''History'']),
              (''coverColor'', JStr ''#e0f2fe''), (''isbn'', JStr ''9780062316097''),
              (''matchReason'', JStr ''Thought provoking''), (''isLocal'', JBool False)]]"
proof (intro conjI impI)
  show "offline_recommendations = [JObj [(''id'', JStr ''off-1''), (''title'', JStr ''The Great Gatsby''),
              (''author'', JStr ''F. Scott Fitzgerald''),
              (''description'', JStr ''A classic of the Jazz Age.''),
              (''publishedYear'', JStr ''1925''), (''categories'', JArr [JStr ''Classic'']),
              (''coverColor'', JStr ''#fef3c7''), (''isbn'', JStr ''9780743273565''),
              (''matchReason'', JStr ''Timeless classic''), (''isLocal'', JBool False)],
        JObj [(''id'', JStr ''off-2''), (''title'', JStr ''1984''),
              (''author'', JStr ''George Orwell''),
              (''description'', JStr ''Dystopian social science fiction.''),
              (''publishedYear'', JStr ''1949''), (''categories'', JArr [JStr ''Sci-Fi'']),
              (''coverColor'', JStr ''#f3f4f6''), (''isbn'', JStr ''9780451524935''),
              (''matchReason'', JStr ''Essential reading''), (''isLocal'', JBool False)],
        JObj [(''id'', JStr ''off-3''), (''title'', JStr ''Dune''),
              (''author'', JStr ''Frank Herbert''),
              (''description'', JStr ''Epic science fiction.''),
              (''publishedYear'', JStr ''1965''), (''categories'', JArr [JStr ''Sci-Fi'']),
              (''coverColor'', JStr ''#fed7aa''), (''isbn'', JStr ''9780441013593''),
              (''matchReason'', JStr ''Masterpiece''), (''isLocal'', JBool False)],
        JObj [(''id'', JStr ''off-4''), (''title'', JStr ''Sapiens''),
              (''author'', JStr ''Yuval Noah Harari''),
              (''description'', JStr ''A brief history of humankind.''),
              (''publishedYear'', JStr ''2011''), (''categories'', JArr [JStr ''History'']),
              (''coverColor'', JStr ''#e0f2fe''), (''isbn'', JStr ''9780062316097''),
              (''matchReason'', JStr ''Thought provoking''), (''isLocal'', JBool False)]]"
    unfolding offline_recommendations_def offline_book_def by (rule refl)
qed (simp_all add: getOnboardingRecommendations_unset groq_getOnboardingRecommendations_def groq_getOnboardingRecommendations_try_def
    gm_getOnboardingRecommendations_def gm_getOnboardingRecommendations_try_def fb_fixed)

theorem onboarding_fallback_deterministic_witness:
  "getOnboardingRecommendations offline_world sample_preferences =
     ([Fallback GetOnboardingRecommendations], Inr offline_recommendations)
   \<and> getOnboardingRecommendations offline_world
       (sample_preferences\<lparr>genres := [], readingGoal := ''Adventure''\<rparr>) =
     getOnboardingRecommendations offline_world sample_preferences
   \<and> map (\<lambda>b. get_prop b ''title'') offline_recommendations =
       [JStr ''The Great Gatsby'', JStr ''1984'', JStr ''Dune'', JStr ''Sapiens'']"
  using onboarding_fallback_deterministic [where w = offline_world and w' = offline_world
      and prefs = sample_preferences
      and prefs' = "sample_preferences\<lparr>genres := [], readingGoal := ''Adventure''\<rparr>"]
  by (simp add: offline_world_keys offline_recommendations_def offline_book_def)

section \<open>Defaults of the items\<close>


















section \<open>Ratings\<close>












section \<open>Translation on the fallback path\<close>

lemma callGroq_trace:
  "present (VITE_GROQ_API_KEY w) \<Longrightarrow> fst (callGroq w msgs j n) = [GroqFetch]"
  by (simp add: callGroq_def)

lemma try_catch_throw_eq:
  assumes "snd m = Inl e"
  shows "try_catch m h = (fst m @ fst h, snd h)"
  using assms by (cases m; cases h) (simp add: try_catch_def)

lemma groq_translateText_fallback:
  assumes "present (VITE_GROQ_API_KEY w)"
    and "snd (callGroq w (groq_translate_messages s l) False 512) = Inl e"
  shows "groq_translateText w s l =
    (GroqFetch # fst (fb_translateText w s), snd (fb_translateText w s))"
  using assms
  by (simp add: groq_translateText_def groq_translateText_try_def try_catch_throw_eq [OF assms(2)] callGroq_trace)

lemma translateText_unset:
  assumes "\<not> present (VITE_GROQ_API_KEY w)" "\<not> present (VITE_GEMINI_API_KEY w)"
  shows "translateText w s l = fb_translateText w s"
  using assms
  by (simp add: translateText_def activeService_def provider_def getProvider_def
      FallbackService_def)

text \<open>
Claim C10. When \<open>translateText\<close> of the Groq service takes the fallback path for two
  target languages (the key is not set, or the call to Groq throws for both), the two calls
  give the same trace and result, that of the fallback's \<open>translateText\<close>, which takes the
  text alone. The same holds for the exported function when the fallback is the provider.
\<close>

theorem translate_fallback_ignores_language:
  "((\<not> present (VITE_GROQ_API_KEY w)
      \<or> ((\<exists>e. snd (callGroq w (groq_translate_messages s l1) False 512) = Inl e)
         \<and> (\<exists>e. snd (callGroq w (groq_translate_messages s l2) False 512) = Inl e))) \<longrightarrow>
        groq_translateText w s l1 = groq_translateText w s l2
      \<and> snd (groq_translateText w s l1) = snd (fb_translateText w s))
   \<and> (\<not> present (VITE_GROQ_API_KEY w) \<and> \<not> present (VITE_GEMINI_API_KEY w) \<longrightarrow>
        translateText w s l1 = fb_translateText w s
      \<and> translateText w s l1 = translateText w s l2)"
proof (intro conjI impI)
  assume h: "\<not> present (VITE_GROQ_API_KEY w)
      \<or> ((\<exists>e. snd (callGroq w (groq_translate_messages s l1) False 512) = Inl e)
         \<and> (\<exists>e. snd (callGroq w (groq_translate_messages s l2) False 512) = Inl e))"
  have r: "groq_translateText w s l1 = groq_translateText w s l2
      \<and> snd (groq_translateText w s l1) = snd (fb_translateText w s)"
  proof (cases "present (VITE_GROQ_API_KEY w)")
    case False
    then show ?thesis
      by (simp add: groq_translateText_def groq_translateText_try_def)
  next
    case True
    with h obtain e1 e2 where
      "snd (callGroq w (groq_translate_messages s l1) False 512) = Inl e1"
      "snd (callGroq w (groq_translate_messages s l2) False 512) = Inl e2"
      by blast
    then show ?thesis
      by (simp add: groq_translateText_fallback [OF True])
  qed
  from r show "groq_translateText w s l1 = groq_translateText w s l2" ..
  from r show "snd (groq_translateText w s l1) = snd (fb_translateText w s)" ..
next
  assume "\<not> present (VITE_GROQ_API_KEY w) \<and> \<not> present (VITE_GEMINI_API_KEY w)"
  then show "translateText w s l1 = fb_translateText w s"
    "translateText w s l1 = translateText w s l2"
    by (simp_all add: translateText_unset)
qed

theorem translate_fallback_ignores_language_witness:
  "present (VITE_GROQ_API_KEY down_world)
   \<and> snd (callGroq down_world (groq_translate_messages ''Bonjour'' (Some ''French'')) False 512) =
       Inl NetworkError
   \<and> snd (callGroq down_world (groq_translate_messages ''Bonjour'' None) False 512) =
       Inl NetworkError
   \<and> groq_translateText down_world ''Bonjour'' (Some ''French'') =
       groq_translateText down_world ''Bonjour'' None
   \<and> snd (groq_translateText down_world ''Bonjour'' (Some ''French'')) =
       Inr ''Translation service unavailable.''
   \<and> translateText offline_world ''Bonjour'' (Some ''French'') =
       translateText offline_world ''Bonjour'' None"
proof -
  have k: "present (VITE_GROQ_API_KEY down_world)" "\<not> present (VITE_HF_TOKEN down_world)"
    by (simp_all add: down_world_def offline_world_def)
  have c: "snd (callGroq down_world msgs j n) = Inl NetworkError" for msgs j n
    by (simp add: callGroq_def down_world_def offline_world_def)
  show ?thesis
    using translate_fallback_ignores_language [where w = down_world and s = "''Bonjour''"
        and ?l1.0 = "Some ''French''" and ?l2.0 = None]
      translate_fallback_ignores_language [where w = offline_world and s = "''Bonjour''"
        and ?l1.0 = "Some ''French''" and ?l2.0 = None]
    by (auto simp add: k c offline_world_keys fb_no_token)
qed

section \<open>Every call resolves\<close>

lemma await_value_dest:
  assumes "snd (await m f) = Inr v"
  shows "\<exists>x. snd m = Inr x \<and> snd (f x) = Inr v"
  using assms by (cases m; cases "snd m") (auto simp: await_def split: prod.splits)

lemma try_catch_value_dest:
  assumes "snd (try_catch m h) = Inr v"
  shows "snd m = Inr v \<or> snd h = Inr v"
  using assms by (cases m; cases h; cases "snd m") (auto simp: try_catch_def)

lemma map_result_list_all:
  assumes "map_result f k xs = Inr ys" and "\<And>i x y. f i x = Inr y \<Longrightarrow> P y"
  shows "list_all P ys"
  using assms(1)
proof (induction xs arbitrary: k ys)
  case Nil
  then show ?case by simp
next
  case (Cons x xs)
  then show ?case
    by (auto split: sum.splits intro: assms(2))
qed

lemma map_of_set_prop: "map_of (set_prop k v kvs) k' = (if k' = k then Some v else map_of kvs k')"
  by (induction kvs) auto

lemma item_has_id:
  "fb_search_item w i b = Inr y \<Longrightarrow> has_id y"
  "groq_search_item w i b = Inr y \<Longrightarrow> has_id y"
  "groq_book_item w prefix colour i b = Inr y \<Longrightarrow> has_id y"
  "groq_review_item w i b = Inr y \<Longrightarrow> has_id y"
  "gm_search_item w i b = Inr y \<Longrightarrow> has_id y"
  "gm_book_item w prefix i b = Inr y \<Longrightarrow> has_id y"
  "gm_review_item i b = Inr y \<Longrightarrow> has_id y"
  by (auto simp: fb_search_item_def groq_search_item_def groq_book_item_def
      groq_review_item_def gm_search_item_def gm_book_item_def gm_review_item_def
      map_of_set_prop split: if_splits sum.splits)

lemma literal_has_id:
  "list_all has_id offline_books" "list_all has_id offline_recommendations"
  "list_all has_id offline_reviews"
  by (simp_all add: offline_books_def offline_recommendations_def offline_reviews_def
      offline_book_def offline_review_def)

lemma mapped_ids:
  "map_result (fb_search_item w) k xs = Inr ys \<Longrightarrow> list_all has_id ys"
  "map_result (groq_search_item w) k xs = Inr ys \<Longrightarrow> list_all has_id ys"
  "map_result (groq_book_item w prefix colour) k xs = Inr ys \<Longrightarrow> list_all has_id ys"
  "map_result (groq_review_item w) k xs = Inr ys \<Longrightarrow> list_all has_id ys"
  "map_result (gm_search_item w) k xs = Inr ys \<Longrightarrow> list_all has_id ys"
  "map_result (gm_book_item w prefix) k xs = Inr ys \<Longrightarrow> list_all has_id ys"
  "map_result gm_review_item k xs = Inr ys \<Longrightarrow> list_all has_id ys"
  by (erule map_result_list_all, erule item_has_id)+

lemma fb_list_ids:
  "snd (fb_searchBooks w query) = Inr bs \<Longrightarrow> list_all has_id bs"
  "snd (fb_getOnboardingRecommendations w prefs) = Inr bs \<Longrightarrow> list_all has_id bs"
  "snd (fb_generateReviews w title author) = Inr bs \<Longrightarrow> list_all has_id bs"
proof -
  show "list_all has_id bs" if "snd (fb_searchBooks w query) = Inr bs"
  proof -
    from that consider "snd (fb_searchBooks_try w query) = Inr bs" | "bs = offline_books"
      unfolding fb_searchBooks_def snd_enter
      by (auto dest!: try_catch_value_dest simp: resolve_def)
    then show ?thesis
    proof cases
      case 1
      then show ?thesis
        by (auto simp: fb_searchBooks_try_def lift_def throw_def Let_def
            dest!: await_value_dest split: if_splits
            dest: mapped_ids)
    next
      case 2
      then show ?thesis by (simp add: literal_has_id)
    qed
  qed
  show "list_all has_id bs" if "snd (fb_getOnboardingRecommendations w prefs) = Inr bs"
    using that by (simp add: fb_fixed) (use literal_has_id in auto)
  show "list_all has_id bs" if "snd (fb_generateReviews w title author) = Inr bs"
    using that by (simp add: fb_fixed) (use literal_has_id in auto)
qed

lemma fb_concierge_reply:
  assumes "snd (fb_consultConcierge w userMessage history) = Inr (Concierge r ss)"
  shows "is_string r \<or> truthy r"
proof -
  from assms consider "snd (fb_consultConcierge_try w userMessage history) = Inr (Concierge r ss)"
    | "Concierge r ss = fb_concierge_offline"
    unfolding fb_consultConcierge_def snd_enter
    by (auto dest!: try_catch_value_dest simp: resolve_def)
  then show ?thesis
  proof cases
    case 1
    then show ?thesis
      by (auto simp: fb_consultConcierge_try_def resolve_def Let_def
          dest!: await_value_dest split: if_splits)
  next
    case 2
    then show ?thesis by (simp add: fb_concierge_offline_def)
  qed
qed

lemma groq_list_ids:
  "snd (groq_searchBooks w query) = Inr bs \<Longrightarrow> list_all has_id bs"
  "snd (groq_getOnboardingRecommendations w prefs) = Inr bs \<Longrightarrow> list_all has_id bs"
  "snd (groq_generateReviews w title author) = Inr bs \<Longrightarrow> list_all has_id bs"
proof -
  show "list_all has_id bs" if "snd (groq_searchBooks w query) = Inr bs"
  proof -
    from that consider "snd (groq_searchBooks_try w query) = Inr bs"
      | "snd (fb_searchBooks w query) = Inr bs"
      unfolding groq_searchBooks_def
      by (auto dest!: try_catch_value_dest split: if_splits)
    then show ?thesis
    proof cases
      case 1
      then show ?thesis
        by (auto simp: groq_searchBooks_try_def lift_def
            dest!: await_value_dest split: if_splits
            dest: mapped_ids fb_list_ids)
    next
      case 2
      then show ?thesis by (rule fb_list_ids)
    qed
  qed
  show "list_all has_id bs" if "snd (groq_getOnboardingRecommendations w prefs) = Inr bs"
  proof -
    from that consider "snd (groq_getOnboardingRecommendations_try w prefs) = Inr bs"
      | "snd (fb_getOnboardingRecommendations w prefs) = Inr bs"
      unfolding groq_getOnboardingRecommendations_def
      by (auto dest!: try_catch_value_dest split: if_splits)
    then show ?thesis
    proof cases
      case 1
      then show ?thesis
        by (auto simp: groq_getOnboardingRecommendations_try_def lift_def
            dest!: await_value_dest split: if_splits
            dest: mapped_ids fb_list_ids)
    next
      case 2
      then show ?thesis by (rule fb_list_ids)
    qed
  qed
  show "list_all has_id bs" if "snd (groq_generateReviews w title author) = Inr bs"
  proof -
    from that consider "snd (groq_generateReviews_try w title author) = Inr bs"
      | "snd (fb_generateReviews w title author) = Inr bs"
      unfolding groq_generateReviews_def
      by (auto dest!: try_catch_value_dest split: if_splits)
    then show ?thesis
    proof cases
      case 1
      then show ?thesis
        by (auto simp: groq_generateReviews_try_def lift_def
            dest!: await_value_dest split: if_splits
            dest: mapped_ids fb_list_ids)
    next
      case 2
      then show ?thesis by (rule fb_list_ids)
    qed
  qed
qed

lemma groq_concierge_reply:
  assumes "snd (groq_consultConcierge w userMessage history) = Inr (Concierge r ss)"
  shows "is_string r \<or> truthy r"
proof -
  from assms consider
    "snd (groq_consultConcierge_try w userMessage history) = Inr (Concierge r ss)"
    | "snd (fb_consultConcierge w userMessage history) = Inr (Concierge r ss)"
    unfolding groq_consultConcierge_def
    by (auto dest!: try_catch_value_dest split: if_splits)
  then show ?thesis
  proof cases
    case 1
    then show ?thesis
      by (auto simp: groq_consultConcierge_try_def resolve_def throw_def lift_def or_else_def
          dest!: await_value_dest split: if_splits jsval.splits)
  next
    case 2
    then show ?thesis by (rule fb_concierge_reply)
  qed
qed

lemma any_map_ids:
  "any_map (gm_search_item w) data = Inr ys \<Longrightarrow> list_all has_id ys"
  "any_map (gm_book_item w prefix) data = Inr ys \<Longrightarrow> list_all has_id ys"
  "any_map gm_review_item data = Inr ys \<Longrightarrow> list_all has_id ys"
  by (auto simp: any_map_def split: if_splits dest: mapped_ids)

lemma gm_list_ids:
  "snd (gm_searchBooks w query) = Inr bs \<Longrightarrow> list_all has_id bs"
  "snd (gm_getOnboardingRecommendations w prefs) = Inr bs \<Longrightarrow> list_all has_id bs"
  "snd (gm_generateReviews w title author) = Inr bs \<Longrightarrow> list_all has_id bs"
proof -
  show "list_all has_id bs" if "snd (gm_searchBooks w query) = Inr bs"
  proof -
    from that consider "snd (gm_searchBooks_try w query) = Inr bs"
      | "snd (fb_searchBooks w query) = Inr bs"
      unfolding gm_searchBooks_def
      by (auto dest!: try_catch_value_dest split: if_splits)
    then show ?thesis
    proof cases
      case 1
      then show ?thesis
        by (auto simp: gm_searchBooks_try_def lift_def dest!: await_value_dest dest: any_map_ids)
    next
      case 2
      then show ?thesis by (rule fb_list_ids)
    qed
  qed
  show "list_all has_id bs" if "snd (gm_getOnboardingRecommendations w prefs) = Inr bs"
  proof -
    from that consider "snd (gm_getOnboardingRecommendations_try w prefs) = Inr bs"
      | "snd (fb_getOnboardingRecommendations w prefs) = Inr bs"
      unfolding gm_getOnboardingRecommendations_def
      by (auto dest!: try_catch_value_dest split: if_splits)
    then show ?thesis
    proof cases
      case 1
      then show ?thesis
        by (auto simp: gm_getOnboardingRecommendations_try_def lift_def
            dest!: await_value_dest dest: any_map_ids)
    next
      case 2
      then show ?thesis by (rule fb_list_ids)
    qed
  qed
  show "list_all has_id bs" if "snd (gm_generateReviews w title author) = Inr bs"
  proof -
    from that consider "snd (gm_generateReviews_try w title author) = Inr bs"
      | "snd (fb_generateReviews w title author) = Inr bs"
      unfolding gm_generateReviews_def
      by (auto dest!: try_catch_value_dest split: if_splits)
    then show ?thesis
    proof cases
      case 1
      then show ?thesis
        by (auto simp: gm_generateReviews_try_def lift_def
            dest!: await_value_dest dest: any_map_ids)
    next
      case 2
      then show ?thesis by (rule fb_list_ids)
    qed
  qed
qed

lemma gm_concierge_reply:
  assumes "snd (gm_consultConcierge w userMessage history) = Inr (Concierge r ss)"
  shows "is_string r \<or> truthy r"
proof -
  from assms consider
    "snd (gm_consultConcierge_try w userMessage history) = Inr (Concierge r ss)"
    | "snd (fb_consultConcierge w userMessage history) = Inr (Concierge r ss)"
    unfolding gm_consultConcierge_def
    by (auto dest!: try_catch_value_dest split: if_splits)
  then show ?thesis
  proof cases
    case 1
    then show ?thesis
      by (auto simp: gm_consultConcierge_try_def resolve_def throw_def lift_def or_else_def
          dest!: await_value_dest split: if_splits)
  next
    case 2
    then show ?thesis by (rule fb_concierge_reply)
  qed
qed

lemma service_shapes:
  assumes "svc \<in> {GroqService, GeminiService, FallbackService}"
  shows
    "snd (svc_searchBooks svc w query) = Inr bs \<Longrightarrow> list_all has_id bs"
    "snd (svc_getOnboardingRecommendations svc w prefs) = Inr bs \<Longrightarrow> list_all has_id bs"
    "snd (svc_generateReviews svc w title author) = Inr bs \<Longrightarrow> list_all has_id bs"
    "snd (svc_consultConcierge svc w userMessage history) = Inr (Concierge r ss) \<Longrightarrow>
       is_string r \<or> truthy r"
  using assms
  by (auto simp: GroqService_def GeminiService_def FallbackService_def
      dest: groq_list_ids gm_list_ids fb_list_ids groq_concierge_reply gm_concierge_reply
        fb_concierge_reply)

lemma exported_shapes:
  "\<exists>books. snd (searchBooks w query) = Inr books \<and> list_all has_id books"
  "\<exists>r ss. snd (consultConcierge w userMessage history) = Inr (Concierge r ss)
     \<and> (is_string r \<or> truthy r)"
  "\<exists>books. snd (getOnboardingRecommendations w prefs) = Inr books \<and> list_all has_id books"
  "\<exists>reviews. snd (generateReviews w title author) = Inr reviews \<and> list_all has_id reviews"
proof -
  note m = activeService_mem [of w]
  show "\<exists>books. snd (searchBooks w query) = Inr books \<and> list_all has_id books"
    using service_resolves(1) [OF m, of w query] service_shapes(1) [OF m, of w query]
    unfolding searchBooks_def resolves_iff by blast
  show "\<exists>books. snd (getOnboardingRecommendations w prefs) = Inr books \<and> list_all has_id books"
    using service_resolves(3) [OF m, of w prefs] service_shapes(2) [OF m, of w prefs]
    unfolding getOnboardingRecommendations_def resolves_iff by blast
  show "\<exists>reviews. snd (generateReviews w title author) = Inr reviews \<and> list_all has_id reviews"
    using service_resolves(4) [OF m, of w title author]
      service_shapes(3) [OF m, of w title author]
    unfolding generateReviews_def resolves_iff by blast
  show "\<exists>r ss. snd (consultConcierge w userMessage history) = Inr (Concierge r ss)
     \<and> (is_string r \<or> truthy r)"
    using service_resolves(2) [OF m, of w userMessage history]
      service_shapes(4) [OF m, of w userMessage history]
    unfolding consultConcierge_def resolves_iff by (metis concierge.exhaust)
qed

lemma try_catch_cases:
  "try_catch m h = (if resolves m then m else (fst m @ fst h, snd h))"
  by (cases m; cases h) (auto simp: try_catch_def resolves_def split: sum.splits)

lemma enter_try_catch_cases:
  "enter c (try_catch m (resolve x)) =
     (Fallback c # fst m, if resolves m then snd m else Inr x)"
  by (cases m) (auto simp: enter_def try_catch_def resolve_def resolves_def split: sum.splits)

lemma resolves_await: "\<not> resolves m \<Longrightarrow> \<not> resolves (await m f)"
  by (cases m) (auto simp: await_def resolves_def split: sum.splits)

lemma exported_values:
  "(\<exists>a. snd (chatAboutBook w bookTitle userMessage history) = Inr a)"
  "(\<exists>a. snd (translateText w s targetLang) = Inr a)"
  "(\<exists>a. snd (explainContext w s bookTitle) = Inr a)"
  "(\<exists>a. snd (generateBookContent w title author chapter) = Inr a)"
  "(\<exists>a. snd (getBookSummary w title) = Inr a)"
  "(\<exists>a. snd (getBookRecap w title) = Inr a)"
  using exported_resolves [of w] unfolding resolves_iff
  by blast+

lemma groq_unset:
  assumes "\<not> present (VITE_GROQ_API_KEY w)"
  shows
  "groq_searchBooks w query = fb_searchBooks w query"
  "groq_consultConcierge w userMessage history = fb_consultConcierge w userMessage history"
  "groq_getOnboardingRecommendations w prefs = fb_getOnboardingRecommendations w prefs"
  "groq_generateReviews w title author = fb_generateReviews w title author"
  "groq_chatAboutBook w bookTitle userMessage history = fb_chatAboutBook w bookTitle userMessage history"
  "groq_translateText w s targetLang = fb_translateText w s"
  "groq_explainContext w s bookTitle = fb_explainContext w s bookTitle"
  "groq_generateBookContent w title author chapter = fb_generateBookContent w title author chapter"
  "groq_getBookSummary w title = fb_getBookSummary w title"
  "groq_getBookRecap w title = fb_getBookRecap w title"
  using assms by (simp_all add: groq_searchBooks_def groq_consultConcierge_def groq_getOnboardingRecommendations_def groq_generateReviews_def groq_chatAboutBook_def groq_translateText_def groq_explainContext_def groq_generateBookContent_def groq_getBookSummary_def groq_getBookRecap_def)

lemma groq_caught:
  assumes "present (VITE_GROQ_API_KEY w)"
  shows
  "groq_searchBooks w query =
     (if resolves (groq_searchBooks_try w query) then groq_searchBooks_try w query
      else (fst (groq_searchBooks_try w query) @ fst (fb_searchBooks w query), snd (fb_searchBooks w query)))"
  "groq_consultConcierge w userMessage history =
     (if resolves (groq_consultConcierge_try w userMessage history) then groq_consultConcierge_try w userMessage history
      else (fst (groq_consultConcierge_try w userMessage history) @ fst (fb_consultConcierge w userMessage history), snd (fb_consultConcierge w userMessage history)))"
  "groq_getOnboardingRecommendations w prefs =
     (if resolves (groq_getOnboardingRecommendations_try w prefs) then groq_getOnboardingRecommendations_try w prefs
      else (fst (groq_getOnboardingRecommendations_try w prefs) @ fst (fb_getOnboardingRecommendations w prefs), snd (fb_getOnboardingRecommendations w prefs)))"
  "groq_generateReviews w title author =
     (if resolves (groq_generateReviews_try w title author) then groq_generateReviews_try w title author
      else (fst (groq_generateReviews_try w title author) @ fst (fb_generateReviews w title author), snd (fb_generateReviews w title author)))"
  "groq_chatAboutBook w bookTitle userMessage history =
     (if resolves (groq_chatAboutBook_try w bookTitle userMessage history) then groq_chatAboutBook_try w bookTitle userMessage history
      else (fst (groq_chatAboutBook_try w bookTitle userMessage history) @ fst (fb_chatAboutBook w bookTitle userMessage history), snd (fb_chatAboutBook w bookTitle userMessage history)))"
  "groq_translateText w s targetLang =
     (if resolves (groq_translateText_try w s targetLang) then groq_translateText_try w s targetLang
      else (fst (groq_translateText_try w s targetLang) @ fst (fb_translateText w s), snd (fb_translateText w s)))"
  "groq_explainContext w s bookTitle =
     (if resolves (groq_explainContext_try w s bookTitle) then groq_explainContext_try w s bookTitle
      else (fst (groq_explainContext_try w s bookTitle) @ fst (fb_explainContext w s bookTitle), snd (fb_explainContext w s bookTitle)))"
  "groq_generateBookContent w title author chapter =
     (if resolves (groq_generateBookContent_try w title author chapter) then groq_generateBookContent_try w title author chapter
      else (fst (groq_generateBookContent_try w title author chapter) @ fst (fb_generateBookContent w title author chapter), snd (fb_generateBookContent w title author chapter)))"
  "groq_getBookSummary w title =
     (if resolves (groq_getBookSummary_try w title) then groq_getBookSummary_try w title
      else (fst (groq_getBookSummary_try w title) @ fst (fb_getBookSummary w title), snd (fb_getBookSummary w title)))"
  "groq_getBookRecap w title =
     (if resolves (groq_getBookRecap_try w title) then groq_getBookRecap_try w title
      else (fst (groq_getBookRecap_try w title) @ fst (fb_getBookRecap w title), snd (fb_getBookRecap w title)))"
  using assms by (simp_all only: groq_searchBooks_def groq_consultConcierge_def groq_getOnboardingRecommendations_def groq_generateReviews_def groq_chatAboutBook_def groq_translateText_def groq_explainContext_def groq_generateBookContent_def groq_getBookSummary_def groq_getBookRecap_def try_catch_cases simp_thms if_False if_True)

lemma gm_unset:
  assumes "\<not> present (API_KEY w)"
  shows
  "gm_searchBooks w query = fb_searchBooks w query"
  "gm_consultConcierge w userMessage history = fb_consultConcierge w userMessage history"
  "gm_getOnboardingRecommendations w prefs = fb_getOnboardingRecommendations w prefs"
  "gm_generateReviews w title author = fb_generateReviews w title author"
  "gm_chatAboutBook w bookTitle userMessage history = fb_chatAboutBook w bookTitle userMessage history"
  "gm_translateText w s targetLang = fb_translateText w s"
  "gm_explainContext w s bookTitle = fb_explainContext w s bookTitle"
  "gm_generateBookContent w title author chapter = fb_generateBookContent w title author chapter"
  "gm_getBookSummary w title = fb_getBookSummary w title"
  "gm_getBookRecap w title = fb_getBookRecap w title"
  using assms by (simp_all add: gm_searchBooks_def gm_consultConcierge_def gm_getOnboardingRecommendations_def gm_generateReviews_def gm_chatAboutBook_def gm_translateText_def gm_explainContext_def gm_generateBookContent_def gm_getBookSummary_def gm_getBookRecap_def)

lemma gm_caught:
  assumes "present (API_KEY w)"
  shows
  "gm_searchBooks w query =
     (if resolves (gm_searchBooks_try w query) then gm_searchBooks_try w query
      else (fst (gm_searchBooks_try w query) @ fst (fb_searchBooks w query), snd (fb_searchBooks w query)))"
  "gm_consultConcierge w userMessage history =
     (if resolves (gm_consultConcierge_try w userMessage history) then gm_consultConcierge_try w userMessage history
      else (fst (gm_consultConcierge_try w userMessage history) @ fst (fb_consultConcierge w userMessage history), snd (fb_consultConcierge w userMessage history)))"
  "gm_getOnboardingRecommendations w prefs =
     (if resolves (gm_getOnboardingRecommendations_try w prefs) then gm_getOnboardingRecommendations_try w prefs
      else (fst (gm_getOnboardingRecommendations_try w prefs) @ fst (fb_getOnboardingRecommendations w prefs), snd (fb_getOnboardingRecommendations w prefs)))"
  "gm_generateReviews w title author =
     (if resolves (gm_generateReviews_try w title author) then gm_generateReviews_try w title author
      else (fst (gm_generateReviews_try w title author) @ fst (fb_generateReviews w title author), snd (fb_generateReviews w title author)))"
  "gm_chatAboutBook w bookTitle userMessage history =
     (if resolves (gm_chatAboutBook_try w bookTitle userMessage history) then gm_chatAboutBook_try w bookTitle userMessage history
      else (fst (gm_chatAboutBook_try w bookTitle userMessage history) @ fst (fb_chatAboutBook w bookTitle userMessage history), snd (fb_chatAboutBook w bookTitle userMessage history)))"
  "gm_translateText w s targetLang =
     (if resolves (gm_translateText_try w s targetLang) then gm_translateText_try w s targetLang
      else (fst (gm_translateText_try w s targetLang) @ fst (fb_translateText w s), snd (fb_translateText w s)))"
  "gm_explainContext w s bookTitle =
     (if resolves (gm_explainContext_try w s bookTitle) then gm_explainContext_try w s bookTitle
      else (fst (gm_explainContext_try w s bookTitle) @ fst (fb_explainContext w s bookTitle), snd (fb_explainContext w s bookTitle)))"
  "gm_generateBookContent w title author chapter =
     (if resolves (gm_generateBookContent_try w title author chapter) then gm_generateBookContent_try w title author chapter
      else (fst (gm_generateBookContent_try w title author chapter) @ fst (fb_generateBookContent w title author chapter), snd (fb_generateBookContent w title author chapter)))"
  "gm_getBookSummary w title =
     (if resolves (gm_getBookSummary_try w title) then gm_getBookSummary_try w title
      else (fst (gm_getBookSummary_try w title) @ fst (fb_getBookSummary w title), snd (fb_getBookSummary w title)))"
  "gm_getBookRecap w title =
     (if resolves (gm_getBookRecap_try w title) then gm_getBookRecap_try w title
      else (fst (gm_getBookRecap_try w title) @ fst (fb_getBookRecap w title), snd (fb_getBookRecap w title)))"
  using assms by (simp_all only: gm_searchBooks_def gm_consultConcierge_def gm_getOnboardingRecommendations_def gm_generateReviews_def gm_chatAboutBook_def gm_translateText_def gm_explainContext_def gm_generateBookContent_def gm_getBookSummary_def gm_getBookRecap_def try_catch_cases simp_thms if_False if_True)

lemma fb_caught:
  "fb_searchBooks w query =
     (Fallback SearchBooks # fst (fb_searchBooks_try w query),
      if resolves (fb_searchBooks_try w query) then snd (fb_searchBooks_try w query) else Inr offline_books)"
  "fb_consultConcierge w userMessage history =
     (Fallback ConsultConcierge # fst (fb_consultConcierge_try w userMessage history),
      if resolves (fb_consultConcierge_try w userMessage history) then snd (fb_consultConcierge_try w userMessage history) else Inr fb_concierge_offline)"
  "fb_chatAboutBook w bookTitle userMessage history =
     (Fallback ChatAboutBook # fst (fb_chatAboutBook_try w bookTitle userMessage history),
      if resolves (fb_chatAboutBook_try w bookTitle userMessage history) then snd (fb_chatAboutBook_try w bookTitle userMessage history) else Inr (''I can'' @ apos @ ''t analyze this book right now due to connection issues.''))"
  "fb_translateText w s =
     (Fallback TranslateText # fst (fb_translateText_try w s),
      if resolves (fb_translateText_try w s) then snd (fb_translateText_try w s) else Inr ''Translation service unavailable.'')"
  "fb_explainContext w s bookTitle =
     (Fallback ExplainContext # fst (fb_explainContext_try w s bookTitle),
      if resolves (fb_explainContext_try w s bookTitle) then snd (fb_explainContext_try w s bookTitle) else Inr ''Context service unavailable.'')"
  "fb_generateBookContent w title author chapter =
     (Fallback GenerateBookContent # fst (fb_generateBookContent_try w title author chapter),
      if resolves (fb_generateBookContent_try w title author chapter) then snd (fb_generateBookContent_try w title author chapter) else Inr (fb_content_offline w title (chapter_or_default chapter)))"
  "fb_getBookSummary w title =
     (Fallback GetBookSummary # fst (fb_getBookSummary_try w title),
      if resolves (fb_getBookSummary_try w title) then snd (fb_getBookSummary_try w title) else Inr ''Summary unavailable offline.'')"
  "fb_getBookRecap w title =
     (Fallback GetBookRecap # fst (fb_getBookRecap_try w title),
      if resolves (fb_getBookRecap_try w title) then snd (fb_getBookRecap_try w title) else Inr ''Recap unavailable offline.'')"
  by (simp_all only: fb_searchBooks_def fb_consultConcierge_def fb_chatAboutBook_def fb_translateText_def fb_explainContext_def fb_generateBookContent_def fb_getBookSummary_def fb_getBookRecap_def enter_try_catch_cases)

lemma calls_fail:
  "\<not> present (VITE_GROQ_API_KEY w)
     \<or> groq_fetch w (GroqRequest msgs j n) = FetchFailed
     \<or> (\<exists>b. groq_fetch w (GroqRequest msgs j n) = Response False b)
     \<or> (\<exists>e. groq_fetch w (GroqRequest msgs j n) = Response True (Inl e))
     \<or> groq_fetch w (GroqRequest msgs j n) = Response True (Inr (GroqData None)) \<Longrightarrow>
   \<not> resolves (callGroq w msgs j n)"
  "(\<exists>e. generateContent w (GeminiRequest p sch) = Inl e) \<Longrightarrow> \<not> resolves (gm_generate w p sch)"
  "\<not> present (VITE_HF_TOKEN w)
     \<or> hf_fetch w (hf_inputs sys usr) = FetchFailed
     \<or> (\<exists>b. hf_fetch w (hf_inputs sys usr) = Response False b)
     \<or> (\<exists>e. hf_fetch w (hf_inputs sys usr) = Response True (Inl e))
     \<or> hf_fetch w (hf_inputs sys usr) = Response True (Inr None) \<Longrightarrow>
   \<not> resolves (callLLM w sys usr)"
  by (auto simp: callGroq_def gm_generate_def callLLM_def throw_def resolves_def split: sum.splits)

text \<open>
  Claim C1, as the code has it. Whatever the environment variables are and whatever the three
  endpoints answer, each of the ten exported operations, and each operation of each of the
  three modules, resolves and never rejects: to a list of objects that each have a string
  \<open>id\<close>, to a \<open>{ reply, suggestions }\<close> whose reply is a string or a truthy value
  and whose suggestions are a list, or to a string. What else is inside is not checked
  against the declared shape: the other fields of an item and the \<open>reply\<close> are the
  provider's, of any type or absent. An operation of the Groq or Gemini service is the
  fallback's when its key is not set; when the key is set and its \<open>try\<close> block throws,
  whatever throws (a failed request, a reply that is not ok, an unreadable body, an
  exception while mapping the parsed reply), the result is that of the fallback's operation,
  after the events of the block; otherwise it is the block's. A fallback operation with a
  \<open>try\<close> block returns the block's value, or its own literal when the block throws; the
  recommendations and the reviews of the fallback are literals in any case.
\<close>

theorem capability_calls_never_reject:
  "((\<exists>books. snd (searchBooks w query) = Inr books \<and> list_all has_id books)
    \<and> (\<exists>r ss. snd (consultConcierge w userMessage history) = Inr (Concierge r ss)
         \<and> (is_string r \<or> truthy r))
    \<and> (\<exists>books. snd (getOnboardingRecommendations w prefs) = Inr books
         \<and> list_all has_id books)
    \<and> (\<exists>reviews. snd (generateReviews w title author) = Inr reviews
         \<and> list_all has_id reviews)
    \<and> (\<exists>a. snd (chatAboutBook w bookTitle userMessage history) = Inr a)
    \<and> (\<exists>a. snd (translateText w s targetLang) = Inr a)
    \<and> (\<exists>a. snd (explainContext w s bookTitle) = Inr a)
    \<and> (\<exists>a. snd (generateBookContent w title author chapter) = Inr a)
    \<and> (\<exists>a. snd (getBookSummary w title) = Inr a)
    \<and> (\<exists>a. snd (getBookRecap w title) = Inr a))
   \<and> (svc \<in> {GroqService, GeminiService, FallbackService} \<longrightarrow>
        resolves (svc_searchBooks svc w query)
      \<and> resolves (svc_consultConcierge svc w userMessage history)
      \<and> resolves (svc_getOnboardingRecommendations svc w prefs)
      \<and> resolves (svc_generateReviews svc w title author)
      \<and> resolves (svc_chatAboutBook svc w bookTitle userMessage history)
      \<and> resolves (svc_translateText svc w s targetLang)
      \<and> resolves (svc_explainContext svc w s bookTitle)
      \<and> resolves (svc_generateBookContent svc w title author chapter)
      \<and> resolves (svc_getBookSummary svc w title)
      \<and> resolves (svc_getBookRecap svc w title))
   \<and> (\<not> present (VITE_GROQ_API_KEY w) \<longrightarrow>
        groq_searchBooks w query = fb_searchBooks w query
      \<and> groq_consultConcierge w userMessage history = fb_consultConcierge w userMessage history
      \<and> groq_getOnboardingRecommendations w prefs = fb_getOnboardingRecommendations w prefs
      \<and> groq_generateReviews w title author = fb_generateReviews w title author
      \<and> groq_chatAboutBook w bookTitle userMessage history = fb_chatAboutBook w bookTitle userMessage history
      \<and> groq_translateText w s targetLang = fb_translateText w s
      \<and> groq_explainContext w s bookTitle = fb_explainContext w s bookTitle
      \<and> groq_generateBookContent w title author chapter = fb_generateBookContent w title author chapter
      \<and> groq_getBookSummary w title = fb_getBookSummary w title
      \<and> groq_getBookRecap w title = fb_getBookRecap w title)
   \<and> (present (VITE_GROQ_API_KEY w) \<longrightarrow>
        groq_searchBooks w query =
          (if resolves (groq_searchBooks_try w query) then groq_searchBooks_try w query
           else (fst (groq_searchBooks_try w query) @ fst (fb_searchBooks w query), snd (fb_searchBooks w query)))
      \<and> groq_consultConcierge w userMessage history =
          (if resolves (groq_consultConcierge_try w userMessage history) then groq_consultConcierge_try w userMessage history
           else (fst (groq_consultConcierge_try w userMessage history) @ fst (fb_consultConcierge w userMessage history), snd (fb_consultConcierge w userMessage history)))
      \<and> groq_getOnboardingRecommendations w prefs =
          (if resolves (groq_getOnboardingRecommendations_try w prefs) then groq_getOnboardingRecommendations_try w prefs
           else (fst (groq_getOnboardingRecommendations_try w prefs) @ fst (fb_getOnboardingRecommendations w prefs), snd (fb_getOnboardingRecommendations w prefs)))
      \<and> groq_generateReviews w title author =
          (if resolves (groq_generateReviews_try w title author) then groq_generateReviews_try w title author
           else (fst (groq_generateReviews_try w title author) @ fst (fb_generateReviews w title author), snd (fb_generateReviews w title author)))
      \<and> groq_chatAboutBook w bookTitle userMessage history =
          (if resolves (groq_chatAboutBook_try w bookTitle userMessage history) then groq_chatAboutBook_try w bookTitle userMessage history
           else (fst (groq_chatAboutBook_try w bookTitle userMessage history) @ fst (fb_chatAboutBook w bookTitle userMessage history), snd (fb_chatAboutBook w bookTitle userMessage history)))
      \<and> groq_translateText w s targetLang =
          (if resolves (groq_translateText_try w s targetLang) then groq_translateText_try w s targetLang
           else (fst (groq_translateText_try w s targetLang) @ fst (fb_translateText w s), snd (fb_translateText w s)))
      \<and> groq_explainContext w s bookTitle =
          (if resolves (groq_explainContext_try w s bookTitle) then groq_explainContext_try w s bookTitle
           else (fst (groq_explainContext_try w s bookTitle) @ fst (fb_explainContext w s bookTitle), snd (fb_explainContext w s bookTitle)))
      \<and> groq_generateBookContent w title author chapter =
          (if resolves (groq_generateBookContent_try w title author chapter) then groq_generateBookContent_try w title author chapter
           else (fst (groq_generateBookContent_try w title author chapter) @ fst (fb_generateBookContent w title author chapter), snd (fb_generateBookContent w title author chapter)))
      \<and> groq_getBookSummary w title =
          (if resolves (groq_getBookSummary_try w title) then groq_getBookSummary_try w title
           else (fst (groq_getBookSummary_try w title) @ fst (fb_getBookSummary w title), snd (fb_getBookSummary w title)))
      \<and> groq_getBookRecap w title =
          (if resolves (groq_getBookRecap_try w title) then groq_getBookRecap_try w title
           else (fst (groq_getBookRecap_try w title) @ fst (fb_getBookRecap w title), snd (fb_getBookRecap w title))))
   \<and> (\<not> present (API_KEY w) \<longrightarrow>
        gm_searchBooks w query = fb_searchBooks w query
      \<and> gm_consultConcierge w userMessage history = fb_consultConcierge w userMessage history
      \<and> gm_getOnboardingRecommendations w prefs = fb_getOnboardingRecommendations w prefs
      \<and> gm_generateReviews w title author = fb_generateReviews w title author
      \<and> gm_chatAboutBook w bookTitle userMessage history = fb_chatAboutBook w bookTitle userMessage history
      \<and> gm_translateText w s targetLang = fb_translateText w s
      \<and> gm_explainContext w s bookTitle = fb_explainContext w s bookTitle
      \<and> gm_generateBookContent w title author chapter = fb_generateBookContent w title author chapter
      \<and> gm_getBookSummary w title = fb_getBookSummary w title
      \<and> gm_getBookRecap w title = fb_getBookRecap w title)
   \<and> (present (API_KEY w) \<longrightarrow>
        gm_searchBooks w query =
          (if resolves (gm_searchBooks_try w query) then gm_searchBooks_try w query
           else (fst (gm_searchBooks_try w query) @ fst (fb_searchBooks w query), snd (fb_searchBooks w query)))
      \<and> gm_consultConcierge w userMessage history =
          (if resolves (gm_consultConcierge_try w userMessage history) then gm_consultConcierge_try w userMessage history
           else (fst (gm_consultConcierge_try w userMessage history) @ fst (fb_consultConcierge w userMessage history), snd (fb_consultConcierge w userMessage history)))
      \<and> gm_getOnboardingRecommendations w prefs =
          (if resolves (gm_getOnboardingRecommendations_try w prefs) then gm_getOnboardingRecommendations_try w prefs
           else (fst (gm_getOnboardingRecommendations_try w prefs) @ fst (fb_getOnboardingRecommendations w prefs), snd (fb_getOnboardingRecommendations w prefs)))
      \<and> gm_generateReviews w title author =
          (if resolves (gm_generateReviews_try w title author) then gm_generateReviews_try w title author
           else (fst (gm_generateReviews_try w title author) @ fst (fb_generateReviews w title author), snd (fb_generateReviews w title author)))
      \<and> gm_chatAboutBook w bookTitle userMessage history =
          (if resolves (gm_chatAboutBook_try w bookTitle userMessage history) then gm_chatAboutBook_try w bookTitle userMessage history
           else (fst (gm_chatAboutBook_try w bookTitle userMessage history) @ fst (fb_chatAboutBook w bookTitle userMessage history), snd (fb_chatAboutBook w bookTitle userMessage history)))
      \<and> gm_translateText w s targetLang =
          (if resolves (gm_translateText_try w s targetLang) then gm_translateText_try w s targetLang
           else (fst (gm_translateText_try w s targetLang) @ fst (fb_translateText w s), snd (fb_translateText w s)))
      \<and> gm_explainContext w s bookTitle =
          (if resolves (gm_explainContext_try w s bookTitle) then gm_explainContext_try w s bookTitle
           else (fst (gm_explainContext_try w s bookTitle) @ fst (fb_explainContext w s bookTitle), snd (fb_explainContext w s bookTitle)))
      \<and> gm_generateBookContent w title author chapter =
          (if resolves (gm_generateBookContent_try w title author chapter) then gm_generateBookContent_try w title author chapter
           else (fst (gm_generateBookContent_try w title author chapter) @ fst (fb_generateBookContent w title author chapter), snd (fb_generateBookContent w title author chapter)))
      \<and> gm_getBookSummary w title =
          (if resolves (gm_getBookSummary_try w title) then gm_getBookSummary_try w title
           else (fst (gm_getBookSummary_try w title) @ fst (fb_getBookSummary w title), snd (fb_getBookSummary w title)))
      \<and> gm_getBookRecap w title =
          (if resolves (gm_getBookRecap_try w title) then gm_getBookRecap_try w title
           else (fst (gm_getBookRecap_try w title) @ fst (fb_getBookRecap w title), snd (fb_getBookRecap w title))))
   \<and> (\<not> present (VITE_GROQ_API_KEY w)
        \<or> groq_fetch w (GroqRequest msgs j n) = FetchFailed
        \<or> (\<exists>b. groq_fetch w (GroqRequest msgs j n) = Response False b)
        \<or> (\<exists>e. groq_fetch w (GroqRequest msgs j n) = Response True (Inl e))
        \<or> groq_fetch w (GroqRequest msgs j n) = Response True (Inr (GroqData None)) \<longrightarrow>
      \<not> resolves (callGroq w msgs j n))
   \<and> ((\<exists>e. generateContent w (GeminiRequest p sch) = Inl e) \<longrightarrow>
      \<not> resolves (gm_generate w p sch))
   \<and> (\<not> present (VITE_HF_TOKEN w)
        \<or> hf_fetch w (hf_inputs sys usr) = FetchFailed
        \<or> (\<exists>b. hf_fetch w (hf_inputs sys usr) = Response False b)
        \<or> (\<exists>e. hf_fetch w (hf_inputs sys usr) = Response True (Inl e))
        \<or> hf_fetch w (hf_inputs sys usr) = Response True (Inr None) \<longrightarrow>
      \<not> resolves (callLLM w sys usr))
   \<and> ((\<forall>msgs j n. \<exists>e. snd (callGroq w msgs j n) = Inl e) \<longrightarrow>
        snd (groq_searchBooks w query) = snd (fb_searchBooks w query)
      \<and> snd (groq_consultConcierge w userMessage history) = snd (fb_consultConcierge w userMessage history)
      \<and> snd (groq_getOnboardingRecommendations w prefs) = snd (fb_getOnboardingRecommendations w prefs)
      \<and> snd (groq_generateReviews w title author) = snd (fb_generateReviews w title author)
      \<and> snd (groq_chatAboutBook w bookTitle userMessage history) = snd (fb_chatAboutBook w bookTitle userMessage history)
      \<and> snd (groq_translateText w s targetLang) = snd (fb_translateText w s)
      \<and> snd (groq_explainContext w s bookTitle) = snd (fb_explainContext w s bookTitle)
      \<and> snd (groq_generateBookContent w title author chapter) = snd (fb_generateBookContent w title author chapter)
      \<and> snd (groq_getBookSummary w title) = snd (fb_getBookSummary w title)
      \<and> snd (groq_getBookRecap w title) = snd (fb_getBookRecap w title))
   \<and> ((\<forall>p sch. \<exists>e. snd (gm_generate w p sch) = Inl e) \<longrightarrow>
        snd (gm_searchBooks w query) = snd (fb_searchBooks w query)
      \<and> snd (gm_consultConcierge w userMessage history) = snd (fb_consultConcierge w userMessage history)
      \<and> snd (gm_getOnboardingRecommendations w prefs) = snd (fb_getOnboardingRecommendations w prefs)
      \<and> snd (gm_generateReviews w title author) = snd (fb_generateReviews w title author)
      \<and> snd (gm_chatAboutBook w bookTitle userMessage history) = snd (fb_chatAboutBook w bookTitle userMessage history)
      \<and> snd (gm_translateText w s targetLang) = snd (fb_translateText w s)
      \<and> snd (gm_explainContext w s bookTitle) = snd (fb_explainContext w s bookTitle)
      \<and> snd (gm_generateBookContent w title author chapter) = snd (fb_generateBookContent w title author chapter)
      \<and> snd (gm_getBookSummary w title) = snd (fb_getBookSummary w title)
      \<and> snd (gm_getBookRecap w title) = snd (fb_getBookRecap w title))
   \<and> fb_searchBooks w query =
     (Fallback SearchBooks # fst (fb_searchBooks_try w query),
      if resolves (fb_searchBooks_try w query) then snd (fb_searchBooks_try w query) else Inr offline_books)
   \<and> fb_consultConcierge w userMessage history =
     (Fallback ConsultConcierge # fst (fb_consultConcierge_try w userMessage history),
      if resolves (fb_consultConcierge_try w userMessage history) then snd (fb_consultConcierge_try w userMessage history) else Inr fb_concierge_offline)
   \<and> fb_chatAboutBook w bookTitle userMessage history =
     (Fallback ChatAboutBook # fst (fb_chatAboutBook_try w bookTitle userMessage history),
      if resolves (fb_chatAboutBook_try w bookTitle userMessage history) then snd (fb_chatAboutBook_try w bookTitle userMessage history) else Inr (''I can'' @ apos @ ''t analyze this book right now due to connection issues.''))
   \<and> fb_translateText w s =
     (Fallback TranslateText # fst (fb_translateText_try w s),
      if resolves (fb_translateText_try w s) then snd (fb_translateText_try w s) else Inr ''Translation service unavailable.'')
   \<and> fb_explainContext w s bookTitle =
     (Fallback ExplainContext # fst (fb_explainContext_try w s bookTitle),
      if resolves (fb_explainContext_try w s bookTitle) then snd (fb_explainContext_try w s bookTitle) else Inr ''Context service unavailable.'')
   \<and> fb_generateBookContent w title author chapter =
     (Fallback GenerateBookContent # fst (fb_generateBookContent_try w title author chapter),
      if resolves (fb_generateBookContent_try w title author chapter) then snd (fb_generateBookContent_try w title author chapter) else Inr (fb_content_offline w title (chapter_or_default chapter)))
   \<and> fb_getBookSummary w title =
     (Fallback GetBookSummary # fst (fb_getBookSummary_try w title),
      if resolves (fb_getBookSummary_try w title) then snd (fb_getBookSummary_try w title) else Inr ''Summary unavailable offline.'')
   \<and> fb_getBookRecap w title =
     (Fallback GetBookRecap # fst (fb_getBookRecap_try w title),
      if resolves (fb_getBookRecap_try w title) then snd (fb_getBookRecap_try w title) else Inr ''Recap unavailable offline.'')
   \<and> ((\<forall>sys usr. \<exists>e. snd (callLLM w sys usr) = Inl e) \<longrightarrow>
        snd (fb_searchBooks w query) = Inr offline_books
      \<and> snd (fb_consultConcierge w userMessage history) = Inr fb_concierge_offline
      \<and> snd (fb_chatAboutBook w bookTitle userMessage history) = Inr (''I can'' @ apos @ ''t analyze this book right now due to connection issues.'')
      \<and> snd (fb_translateText w s) = Inr ''Translation service unavailable.''
      \<and> snd (fb_explainContext w s bookTitle) = Inr ''Context service unavailable.''
      \<and> snd (fb_generateBookContent w title author chapter) = Inr (fb_content_offline w title (chapter_or_default chapter))
      \<and> snd (fb_getBookSummary w title) = Inr ''Summary unavailable offline.''
      \<and> snd (fb_getBookRecap w title) = Inr ''Recap unavailable offline.'')
   \<and> snd (fb_getOnboardingRecommendations w prefs) = Inr offline_recommendations
   \<and> snd (fb_generateReviews w title author) = Inr offline_reviews"
  by (intro conjI impI exported_shapes exported_values service_resolves groq_unset groq_caught gm_unset
      gm_caught calls_fail groq_delegates gm_delegates fb_caught fb_literals;
      (assumption | simp add: fb_fixed))

lemma down_world_keys:
  "present (VITE_GROQ_API_KEY down_world)" "present (API_KEY down_world)"
  "\<not> present (VITE_HF_TOKEN down_world)"
  "groq_fetch down_world r = FetchFailed"
  "generateContent down_world q = Inl NetworkError"
  by (simp_all add: down_world_def offline_world_def)

lemma groq_search_null_item:
  "groq_searchBooks_try (groq_world reply_null_item) ''dune'' = ([GroqFetch], Inl TypeError)"
proof -
  have p: "groq_parseJSON (groq_world reply_null_item) reply_null_item = Inr (JArr [JNull])"
    by (simp add: groq_parseJSON_def example_worlds sample_parse_values)
  show ?thesis
    by (simp add: groq_searchBooks_try_def example_worlds p await_value await_lift lift_def
        groq_search_item_def)
qed

lemma not_resolves_thrown: "\<not> resolves (t, Inl e)"
  by (simp add: resolves_def)

theorem capability_calls_never_reject_witness:
  "GroqService \<in> {GroqService, GeminiService, FallbackService}
   \<and> (\<forall>msgs j n. \<exists>e. snd (callGroq down_world msgs j n) = Inl e)
   \<and> (\<forall>p sch. \<exists>e. snd (gm_generate down_world p sch) = Inl e)
   \<and> (\<forall>sys usr. \<exists>e. snd (callLLM down_world sys usr) = Inl e)
   \<and> present (VITE_GROQ_API_KEY down_world)
   \<and> present (API_KEY down_world)
   \<and> \<not> resolves (callGroq down_world [] False 512)
   \<and> \<not> resolves (gm_generate down_world ''Summarize'' None)
   \<and> \<not> resolves (callLLM down_world ''Summarize'' ''Summary:'')
   \<and> resolves (svc_translateText GroqService down_world ''Bonjour'' (Some ''English''))
   \<and> snd (groq_searchBooks down_world ''dune'') = Inr offline_books
   \<and> snd (gm_getBookSummary down_world ''Dune'') = Inr ''Summary unavailable offline.''
   \<and> \<not> resolves (groq_searchBooks_try (groq_world reply_null_item) ''dune'')
   \<and> groq_searchBooks (groq_world reply_null_item) ''dune'' =
       ([GroqFetch, Fallback SearchBooks], Inr offline_books)
   \<and> \<not> present (VITE_GROQ_API_KEY offline_world)
   \<and> \<not> present (API_KEY offline_world)
   \<and> groq_translateText offline_world ''Bonjour'' (Some ''French'') =
       ([Fallback TranslateText], Inr ''Translation service unavailable.'')
   \<and> gm_translateText offline_world ''Bonjour'' (Some ''French'') =
       ([Fallback TranslateText], Inr ''Translation service unavailable.'')"
proof -
  note dw = capability_calls_never_reject [where w = down_world and svc = GroqService
      and query = "''dune''" and title = "''Dune''" and s = "''Bonjour''"
      and targetLang = "Some ''English''" and msgs = "[]" and j = False and n = 512
      and p = "''Summarize''" and sch = None and sys = "''Summarize''" and usr = "''Summary:''"
      and userMessage = "[]" and history = "[]" and prefs = sample_preferences
      and author = "[]" and bookTitle = "[]" and ?chapter = None]
  note nw = capability_calls_never_reject [where w = "groq_world reply_null_item"
      and svc = GroqService
      and query = "''dune''" and title = "''Dune''" and s = "''Bonjour''"
      and targetLang = "Some ''English''" and msgs = "[]" and j = False and n = 512
      and p = "''Summarize''" and sch = None and sys = "''Summarize''" and usr = "''Summary:''"
      and userMessage = "[]" and history = "[]" and prefs = sample_preferences
      and author = "[]" and bookTitle = "[]" and ?chapter = None]
  note ow = capability_calls_never_reject [where w = offline_world and svc = GroqService
      and query = "''dune''" and title = "''Dune''" and s = "''Bonjour''"
      and targetLang = "Some ''French''" and msgs = "[]" and j = False and n = 512
      and p = "''Summarize''" and sch = None and sys = "''Summarize''" and usr = "''Summary:''"
      and userMessage = "[]" and history = "[]" and prefs = sample_preferences
      and author = "[]" and bookTitle = "[]" and ?chapter = None]
  have m: "GroqService \<in> {GroqService, GeminiService, FallbackService}"
    by simp
  have c1: "\<not> resolves (callGroq down_world [] False 512)"
    using dw down_world_keys(4) by blast
  have c2: "\<not> resolves (gm_generate down_world ''Summarize'' None)"
    using dw down_world_keys(5) by blast
  have c3: "\<not> resolves (callLLM down_world ''Summarize'' ''Summary:'')"
    using dw down_world_keys(3) by blast
  have r: "resolves (svc_translateText GroqService down_world ''Bonjour'' (Some ''English''))"
    using dw m by blast
  have g1: "snd (groq_searchBooks down_world ''dune'') = snd (fb_searchBooks down_world ''dune'')"
    using dw down_world_calls(1) by blast
  have g2: "snd (fb_searchBooks down_world ''dune'') = Inr offline_books"
    using dw down_world_calls(3) by blast
  have s1: "snd (gm_getBookSummary down_world ''Dune'') = snd (fb_getBookSummary down_world ''Dune'')"
    using dw down_world_calls(2) by blast
  have s2: "snd (fb_getBookSummary down_world ''Dune'') = Inr ''Summary unavailable offline.''"
    using dw down_world_calls(3) by blast
  have k: "present (VITE_GROQ_API_KEY (groq_world reply_null_item))"
    by (simp add: groq_world_def offline_world_def)
  have n1: "groq_searchBooks (groq_world reply_null_item) ''dune'' =
      (if resolves (groq_searchBooks_try (groq_world reply_null_item) ''dune'')
       then groq_searchBooks_try (groq_world reply_null_item) ''dune''
       else (fst (groq_searchBooks_try (groq_world reply_null_item) ''dune'')
               @ fst (fb_searchBooks (groq_world reply_null_item) ''dune''),
             snd (fb_searchBooks (groq_world reply_null_item) ''dune'')))"
    using nw k by blast
  have f: "fb_searchBooks (groq_world reply_null_item) ''dune'' =
      ([Fallback SearchBooks], Inr offline_books)"
    by (rule fb_no_token) (rule example_worlds)
  have n2: "\<not> resolves (groq_searchBooks_try (groq_world reply_null_item) ''dune'')"
    by (simp add: groq_search_null_item not_resolves_thrown)
  have n3: "groq_searchBooks (groq_world reply_null_item) ''dune'' =
       ([GroqFetch, Fallback SearchBooks], Inr offline_books)"
    by (simp add: n1 [unfolded groq_search_null_item f] not_resolves_thrown)
  have o1: "groq_translateText offline_world ''Bonjour'' (Some ''French'') =
      fb_translateText offline_world ''Bonjour''"
    using ow offline_world_keys(1) by blast
  have o2: "gm_translateText offline_world ''Bonjour'' (Some ''French'') =
      fb_translateText offline_world ''Bonjour''"
    using ow offline_world_keys(3) by blast
  have o3: "fb_translateText offline_world ''Bonjour'' =
      ([Fallback TranslateText], Inr ''Translation service unavailable.'')"
    by (rule fb_no_token) (rule offline_world_keys)
  show ?thesis
    using down_world_calls
    by (simp only: m c1 c2 c3 r g1 g2 s1 s2 n2 n3 o1 o2 o3 down_world_keys offline_world_keys
        simp_thms)
qed

lemma exported_groq:
  "present (VITE_GROQ_API_KEY w) \<Longrightarrow> consultConcierge w = groq_consultConcierge w"
  by (simp add: consultConcierge_def activeService_def provider_def getProvider_def
      GroqService_def)

lemma exported_unset:
  "\<not> present (VITE_GROQ_API_KEY w) \<Longrightarrow> \<not> present (VITE_GEMINI_API_KEY w) \<Longrightarrow>
     searchBooks w = fb_searchBooks w"
  by (simp add: searchBooks_def activeService_def provider_def getProvider_def
      FallbackService_def)

lemma hf_world_keys:
  "\<not> present (VITE_GROQ_API_KEY (hf_world s))" "\<not> present (VITE_GEMINI_API_KEY (hf_world s))"
  by (simp_all add: hf_world_def offline_world_def)

theorem result_shape_counterexample:
  "consultConcierge (groq_world reply_number) ''hello'' [] =
     ([GroqFetch], Inr (Concierge (JNum 5) []))
   \<and> \<not> is_string (JNum 5)
   \<and> searchBooks (hf_world reply_titled) ''dune'' =
     ([Fallback SearchBooks, HFFetch],
      Inr [JObj [(''title'', JStr ''A''),
                 (''id'', JStr ''fallback-1700000000000-0''),
                 (''categories'', JArr [JStr ''General'']),
                 (''isLocal'', JBool False)]])
   \<and> \<not> is_string
        (get_prop (JObj [(''title'', JStr ''A''),
                         (''id'', JStr ''fallback-1700000000000-0''),
                         (''categories'', JArr [JStr ''General'']),
                         (''isLocal'', JBool False)]) ''author'')
   \<and> \<not> is_string
        (get_prop (JObj [(''title'', JStr ''A''),
                         (''id'', JStr ''fallback-1700000000000-0''),
                         (''categories'', JArr [JStr ''General'']),
                         (''isLocal'', JBool False)]) ''coverColor'')"
proof -
  have k: "present (VITE_GROQ_API_KEY (groq_world reply_number))"
    by (simp add: groq_world_def offline_world_def)
  have p: "groq_parseJSON (groq_world reply_number) reply_number = Inr (JObj [(''reply'', JNum 5)])"
    by (simp add: groq_parseJSON_def example_worlds sample_parse_values)
  have c: "consultConcierge (groq_world reply_number) ''hello'' [] =
     ([GroqFetch], Inr (Concierge (JNum 5) []))"
    by (simp add: exported_groq [OF k] groq_consultConcierge_def groq_consultConcierge_try_def k
        example_worlds p await_value await_lift lift_def resolve_def try_catch_def or_else_def
        del: append.simps)
  have x: "extractJSON (hf_world reply_titled) reply_titled = JArr [JObj [(''title'', JStr ''A'')]]"
    by (simp add: extractJSON_def reply_titled_span hf_world_calls sample_parse_values)
  have i: "fb_search_item (hf_world reply_titled) 0 (JObj [(''title'', JStr ''A'')]) =
      Inr (JObj [(''title'', JStr ''A''),
                 (''id'', JStr ''fallback-1700000000000-0''),
                 (''categories'', JArr [JStr ''General'']),
                 (''isLocal'', JBool False)])"
    by (simp add: fb_search_item_def hf_world_calls stamp or_else_def)
  have s: "searchBooks (hf_world reply_titled) ''dune'' =
     ([Fallback SearchBooks, HFFetch],
      Inr [JObj [(''title'', JStr ''A''),
                 (''id'', JStr ''fallback-1700000000000-0''),
                 (''categories'', JArr [JStr ''General'']),
                 (''isLocal'', JBool False)]])"
    by (simp add: exported_unset [OF hf_world_keys] fb_searchBooks_def fb_searchBooks_try_def
        hf_world_calls await_value x i lift_def try_catch_def enter_def del: append.simps)
  show ?thesis
    unfolding c s by simp
qed

end
